theory Spec2Isabelle
  imports Main
begin

section \<open>Errors\<close>

text \<open>
  The error categories of the \<open>rio\<close> API (the constants the source names, and the
  rest of the table of the specification), followed by the categories of the filesystem
  layer (\<open>fs.ErrNotDir\<close> and its siblings) and a catch-all for errors that did not come
  from this program.
\<close>

datatype ErrorCategory =
    ErrUsage
  | ErrWarehouseUnavailable
  | ErrWareNotFound
  | ErrWareCorrupt
  | ErrWareHashMismatch
  | ErrCancelled
  | ErrLocalCacheProblem
  | ErrAssemblyInvalid
  | ErrInoperablePath
  | ErrNotExists
  | ErrAlreadyExists
  | ErrNotDir
  | ErrPermission
  | ErrBreakout
  | ErrIOUnknown
  | ErrForeign

text \<open>
  An error value of \<open>go-errcat\<close>: its category, the format string and the arguments
  handed to \<open>Errorf\<close> (kept as they are in the source; rendering them is the business of
  the formatting library), and the details map of \<open>ErrorDetailed\<close>.
\<close>

datatype error =
  Err (category: ErrorCategory) (format: string) (args: "fmtarg list")
      (details: "(string \<times> string) list")
and fmtarg = ArgString string | ArgError error

definition Errorf :: "ErrorCategory \<Rightarrow> string \<Rightarrow> fmtarg list \<Rightarrow> error" where
  "Errorf cat fmt as = Err cat fmt as []"

definition ErrorDetailed ::
  "ErrorCategory \<Rightarrow> string \<Rightarrow> fmtarg list \<Rightarrow> (string \<times> string) list \<Rightarrow> error" where
  "ErrorDetailed cat fmt as ds = Err cat fmt as ds"

section \<open>Paths and metadata\<close>

text \<open>
  Modelled from the spec: the path types of package \<open>fs\<close> are not part of the sources at
  hand. A relative path is the list of its components; the empty list is the zero value
  \<open>fs.RelPath{}\<close>, the root of the fileset, which prints as a single dot. \<open>Dir\<close> drops
  the last component.
\<close>

type_synonym RelPath = "string list"

datatype AbsolutePath = AbsolutePath (components: "string list")

fun join_slash :: "string list \<Rightarrow> string" where
  "join_slash [] = []"
| "join_slash [c] = c"
| "join_slash (c # d # cs) = c @ ''/'' @ join_slash (d # cs)"

definition RelPath_String :: "RelPath \<Rightarrow> string" where
  "RelPath_String p = (if p = [] then ''.'' else join_slash p)"

definition RelPath_Dir :: "RelPath \<Rightarrow> RelPath" where
  "RelPath_Dir p = butlast p"

definition AbsolutePath_String :: "AbsolutePath \<Rightarrow> string" where
  "AbsolutePath_String p = ''/'' @ join_slash (components p)"

definition AbsolutePath_Dir :: "AbsolutePath \<Rightarrow> AbsolutePath" where
  "AbsolutePath_Dir p = AbsolutePath (butlast (components p))"

definition CoerceRelative :: "AbsolutePath \<Rightarrow> RelPath" where
  "CoerceRelative p = components p"

text \<open>The filesystem handle \<open>rootFs\<close> of the placers is rooted at the root directory.\<close>

definition rootFs :: AbsolutePath where
  "rootFs = AbsolutePath []"

datatype FileType =
    Type_Invalid
  | Type_File
  | Type_Dir
  | Type_Symlink
  | Type_NamedPipe
  | Type_Socket
  | Type_Device
  | Type_CharDevice
  | Type_Hardlink

text \<open>
  Modelled from the spec: \<open>fs.Metadata\<close>, the per-node record of section 3 of the
  specification. Times are nanoseconds since the epoch.
\<close>

record Metadata =
  Name :: RelPath
  Type :: FileType
  Perms :: nat
  Uid :: int
  Gid :: int
  Size :: int
  Linkname :: string
  Devmajor :: int
  Devminor :: int
  Mtime :: int

section \<open>The filesystem seen by the program\<close>

text \<open>
  The operating system's filesystem is a state of type \<open>'w\<close> that every operation takes
  and, when it writes, returns. A handle \<open>osfs.New(root)\<close> is its root path. The
  operations themselves (package \<open>osfs\<close>, \<open>fsOp\<close> and the standard library) are not in
  the sources at hand: they are parameters, collected in a record. A body reader is the
  byte string it yields, \<open>None\<close> being the nil reader.

  \<open>RepairMtime\<close> reads the directory's mtime when it is called and returns the closure
  that writes it back. \<open>Walk\<close> is \<open>fs.Walk\<close>: it is handed the two visitors.
\<close>

record FilewalkNode =
  Info :: Metadata
  NodeErr :: "error option"

record 'w fs_env =
  LStat :: "'w \<Rightarrow> AbsolutePath \<Rightarrow> RelPath \<Rightarrow> error + Metadata"
  SetTimesNano :: "'w \<Rightarrow> AbsolutePath \<Rightarrow> RelPath \<Rightarrow> int \<Rightarrow> int \<Rightarrow> error option \<times> 'w"
  PlaceFile :: "'w \<Rightarrow> AbsolutePath \<Rightarrow> Metadata \<Rightarrow> string option \<Rightarrow> bool \<Rightarrow> error option \<times> 'w"
  ScanFile :: "'w \<Rightarrow> AbsolutePath \<Rightarrow> RelPath \<Rightarrow> error + (Metadata \<times> string option)"
  RepairMtime :: "'w \<Rightarrow> AbsolutePath \<Rightarrow> RelPath \<Rightarrow> 'w \<Rightarrow> 'w"
  os_RemoveAll :: "'w \<Rightarrow> string \<Rightarrow> error option \<times> 'w"
  os_Remove :: "'w \<Rightarrow> string \<Rightarrow> error option \<times> 'w"
  os_IsNotExist :: "error \<Rightarrow> bool"
  Walk :: "AbsolutePath \<Rightarrow> (FilewalkNode \<Rightarrow> 'w \<Rightarrow> error option \<times> 'w)
             \<Rightarrow> (FilewalkNode \<Rightarrow> 'w \<Rightarrow> error option \<times> 'w) \<Rightarrow> 'w \<Rightarrow> error option \<times> 'w"
  DefaultAtime :: int

section \<open>The copy placer\<close>

text \<open>
  \<open>stitch/placer/copyPlacer.go\<close>. The cleanup closure a placer returns is one of two:
  remove the file, or remove the tree.
\<close>

datatype CleanupFunc = CleanupRemove string | CleanupRemoveAll string

definition runCleanup :: "'w fs_env \<Rightarrow> CleanupFunc \<Rightarrow> 'w \<Rightarrow> error option \<times> 'w" where
  "runCleanup E c w =
     (case c of
        CleanupRemove p \<Rightarrow>
          (case os_Remove E w p of
             (Some err, w') \<Rightarrow>
               (Some (Errorf ErrLocalCacheProblem ''error tearing down copy placement: %s''
                        [ArgError err]), w')
           | (None, w') \<Rightarrow> (None, w'))
      | CleanupRemoveAll p \<Rightarrow>
          (case os_RemoveAll E w p of
             (Some err, w') \<Rightarrow>
               (Some (Errorf ErrLocalCacheProblem ''error tearing down copy placement: %s''
                        [ArgError err]), w')
           | (None, w') \<Rightarrow> (None, w')))"

definition preVisit ::
  "'w fs_env \<Rightarrow> AbsolutePath \<Rightarrow> AbsolutePath \<Rightarrow> FilewalkNode \<Rightarrow> 'w \<Rightarrow> error option \<times> 'w" where
  "preVisit E srcFs dstFs filenode w =
     (case NodeErr filenode of
        Some err \<Rightarrow> (Some err, w)
      | None \<Rightarrow>
          (case ScanFile E w srcFs (Name (Info filenode)) of
             Inl err \<Rightarrow> (Some err, w)
           | Inr (fmeta, body) \<Rightarrow> PlaceFile E w dstFs fmeta body False))"

definition postVisit ::
  "'w fs_env \<Rightarrow> AbsolutePath \<Rightarrow> FilewalkNode \<Rightarrow> 'w \<Rightarrow> error option \<times> 'w" where
  "postVisit E dstFs filenode w =
     (if Type (Info filenode) = Type_Dir
      then (case SetTimesNano E w dstFs (Name (Info filenode)) (Mtime (Info filenode))
                   (DefaultAtime E) of
              (Some err, w') \<Rightarrow> (Some err, w')
            | (None, w') \<Rightarrow> (None, w'))
      else (None, w))"

text \<open>The part of \<open>CopyPlacer\<close> for a plain file, after the placement area is cleared.\<close>

definition copyFile ::
  "'w fs_env \<Rightarrow> AbsolutePath \<Rightarrow> AbsolutePath \<Rightarrow> 'w
     \<Rightarrow> (CleanupFunc option \<times> error option) \<times> 'w" where
  "copyFile E srcPath dstPath w =
     (case ScanFile E w rootFs (CoerceRelative srcPath) of
        Inl err \<Rightarrow>
          ((None, Some (Errorf ErrLocalCacheProblem ''error placing with copy placer: %s''
                          [ArgError err])), w)
      | Inr (fmeta, body) \<Rightarrow>
          (case PlaceFile E w rootFs (fmeta\<lparr>Name := CoerceRelative dstPath\<rparr>) body False of
             (e, w') \<Rightarrow> ((Some (CleanupRemove (AbsolutePath_String dstPath)), e), w')))"

text \<open>The part for a directory: the tree walk with its two visitors.\<close>

definition copyDir ::
  "'w fs_env \<Rightarrow> AbsolutePath \<Rightarrow> AbsolutePath \<Rightarrow> 'w
     \<Rightarrow> (CleanupFunc option \<times> error option) \<times> 'w" where
  "copyDir E srcPath dstPath w =
     (case Walk E srcPath (preVisit E srcPath dstPath) (postVisit E dstPath) w of
        (Some err, w') \<Rightarrow> ((None, Some err), w')
      | (None, w') \<Rightarrow> ((Some (CleanupRemoveAll (AbsolutePath_String dstPath)), None), w'))"

text \<open>
  \<open>CopyPlacer\<close>. The deferred call of line 37 captures the mtime of the parent directory on
  the spot; the closure it yields runs on every return after that line, so it is applied
  to the state each of those branches ends in.
\<close>

definition CopyPlacer ::
  "'w fs_env \<Rightarrow> AbsolutePath \<Rightarrow> AbsolutePath \<Rightarrow> bool \<Rightarrow> 'w
     \<Rightarrow> (CleanupFunc option \<times> error option) \<times> 'w" where
  "CopyPlacer E srcPath dstPath writable w =
     (case LStat E w rootFs (CoerceRelative srcPath) of
        Inl err \<Rightarrow>
          ((None, Some (Errorf ErrLocalCacheProblem ''error placing with copy placer: %s''
                          [ArgError err])), w)
      | Inr srcStat \<Rightarrow>
          if Type srcStat \<noteq> Type_File \<and> Type srcStat \<noteq> Type_Dir
          then ((None, Some (Errorf ErrAssemblyInvalid
                   ''placer: source may only be dir or plain file (%s is %s)''
                   [ArgString (AbsolutePath_String srcPath)])), w)
          else
            let repair = RepairMtime E w rootFs (CoerceRelative (AbsolutePath_Dir dstPath)) in
            (case os_RemoveAll E w (AbsolutePath_String dstPath) of
               (Some err, w1) \<Rightarrow>
                 ((None, Some (Errorf ErrAssemblyInvalid
                     ''error clearing copy placement area: %s'' [ArgError err])), repair w1)
             | (None, w1) \<Rightarrow>
                 if Type srcStat = Type_File
                 then (case copyFile E srcPath dstPath w1 of (r, w2) \<Rightarrow> (r, repair w2))
                 else (case copyDir E srcPath dstPath w1 of (r, w2) \<Rightarrow> (r, repair w2))))"

section \<open>The tar transmat: \<open>unpackTar\<close>\<close>

text \<open>
  \<open>transmat/tar/tar_unpack.go\<close>. A Ware ID is a pack type and a hash; the zero value
  accompanies every error return.
\<close>

datatype WareID = WareID (ware_Type: string) (ware_Hash: string)

definition WareID_zero :: WareID where
  "WareID_zero = WareID [] []"

text \<open>Modelled from the spec: the wire form of a Ware ID, pack type, colon, hash.\<close>

definition WareID_String :: "WareID \<Rightarrow> string" where
  "WareID_String x = ware_Type x @ '':'' @ ware_Hash x"

definition PackType :: string where
  "PackType = ''tar''"

text \<open>
  What \<open>tar.Reader.Next\<close> yields, call after call: a header with the bytes of its body,
  or an error; the end of the list is \<open>io.EOF\<close>.
\<close>

datatype 'hdr tar_item = Entry 'hdr string | Corrupt string

text \<open>A record of the hashing bucket: the metadata and, for files, the content hash.\<close>

type_synonym Record = "Metadata \<times> string option"

text \<open>
  The parts of the codec that are not in the sources at hand, as parameters:
  decompression, the tar reader (from the decompressed bytes to the items it yields), the
  header conversion, the filters, the default directory metadata, the hash function, and
  the bucket's operations: the order in which \<open>treewalk.Walk\<close> visits the records of
  \<open>bucket.Iterator()\<close> (post-order, says the specification), the root record, and the
  hash of the bucket. \<open>CategoryFilterRejection\<close> is what \<open>go-errcat\<close> makes of an error
  whose category is not one of the \<open>rio\<close> API.
\<close>

record ('hdr, 'f) tar_env =
  Decompress :: "string \<Rightarrow> string + string"
  tar_NewReader :: "string \<Rightarrow> 'hdr tar_item list"
  TarHdrToMetadata :: "'hdr \<Rightarrow> error + Metadata"
  filters_Apply :: "'f \<Rightarrow> Metadata \<Rightarrow> Metadata"
  DefaultDirMetadata :: Metadata
  sha384 :: "string \<Rightarrow> string"
  Walk_postorder :: "Record list \<Rightarrow> Record list"
  bucket_Root :: "Record list \<Rightarrow> Record"
  HashBucket :: "Record list \<Rightarrow> string"
  Base58Encode :: "string \<Rightarrow> string"
  CategoryFilterRejection :: "error \<Rightarrow> error"

definition is_rio_category :: "ErrorCategory \<Rightarrow> bool" where
  "is_rio_category c =
     (c = ErrUsage \<or> c = ErrWarehouseUnavailable \<or> c = ErrWareNotFound \<or> c = ErrWareCorrupt
      \<or> c = ErrWareHashMismatch \<or> c = ErrCancelled \<or> c = ErrLocalCacheProblem
      \<or> c = ErrAssemblyInvalid \<or> c = ErrInoperablePath)"

text \<open>The deferred \<open>RequireErrorHasCategory(&err, rio.ErrorCategory(""))\<close>.\<close>

definition RequireErrorHasCategory :: "(error \<Rightarrow> error) \<Rightarrow> error option \<Rightarrow> error option" where
  "RequireErrorHasCategory reject e =
     (case e of
        None \<Rightarrow> None
      | Some err \<Rightarrow> if is_rio_category (category err) then Some err else Some (reject err))"

definition HasPrefix :: "string \<Rightarrow> string \<Rightarrow> bool" where
  "HasPrefix s p = (take (length p) s = p)"

text \<open>
  The inner loop of lines 207 to 220: from the parent of the entry upwards to the root,
  conjure each directory that \<open>LStat\<close> reports missing.
\<close>

function inferParents ::
  "'w fs_env \<Rightarrow> ('hdr, 'f) tar_env \<Rightarrow> AbsolutePath \<Rightarrow> RelPath \<Rightarrow> 'w \<Rightarrow> Record list
     \<Rightarrow> error option \<times> 'w \<times> Record list" where
  "inferParents E T afs parent w bucket =
     (if parent = [] then (None, w, bucket)
      else
        (case LStat E w afs parent of
           Inr st \<Rightarrow> inferParents E T afs (RelPath_Dir parent) w bucket
         | Inl err \<Rightarrow>
             if \<not> os_IsNotExist E err
             then inferParents E T afs (RelPath_Dir parent) w bucket
             else
               let conjuredFmeta = (DefaultDirMetadata T)\<lparr>Name := parent\<rparr> in
               (case PlaceFile E w afs conjuredFmeta None False of
                  (Some err', w') \<Rightarrow>
                    (Some (Errorf ErrInoperablePath ''error while unpacking: %s''
                             [ArgError err']), w', bucket)
                | (None, w') \<Rightarrow>
                    inferParents E T afs (RelPath_Dir parent) w'
                      (bucket @ [(conjuredFmeta, None)]))))"
  by pat_completeness auto
termination
  by (relation "measure (\<lambda>(E, T, afs, parent, w, bucket). length parent)")
     (auto simp: RelPath_Dir_def)

declare inferParents.simps [simp del]

text \<open>
  The body of the outer loop from line 189 on, for one entry that was read and not
  cancelled: convert the header, reject a name that leaves the base directory, filter,
  infer the parents, place the node and record it. The hashing reader wraps the body that
  \<open>PlaceFile\<close> drains, so the content hash is that of the body.
\<close>

definition placeEntry ::
  "'w fs_env \<Rightarrow> ('hdr, 'f) tar_env \<Rightarrow> AbsolutePath \<Rightarrow> 'f \<Rightarrow> 'hdr \<Rightarrow> string \<Rightarrow> 'w \<Rightarrow> Record list
     \<Rightarrow> error option \<times> 'w \<times> Record list" where
  "placeEntry E T afs filt thdr body w bucket =
     (case TarHdrToMetadata T thdr of
        Inl err \<Rightarrow> (Some err, w, bucket)
      | Inr fmeta0 \<Rightarrow>
          if HasPrefix (RelPath_String (Name fmeta0)) ''..''
          then (Some (Errorf ErrWareCorrupt
                  ''corrupt tar: paths that use '../' to leave the base dir are invalid'' []),
                w, bucket)
          else
            let fmeta = filters_Apply T filt fmeta0 in
            (case inferParents E T afs (RelPath_Dir (Name fmeta)) w bucket of
               (Some err, w1, bucket1) \<Rightarrow> (Some err, w1, bucket1)
             | (None, w1, bucket1) \<Rightarrow>
                 if Type fmeta = Type_File
                 then
                   (case PlaceFile E w1 afs fmeta (Some body) False of
                      (Some err, w2) \<Rightarrow>
                        (Some (Errorf ErrInoperablePath ''error while unpacking: %s''
                                 [ArgError err]), w2, bucket1)
                    | (None, w2) \<Rightarrow> (None, w2, bucket1 @ [(fmeta, Some (sha384 T body))]))
                 else
                   (case PlaceFile E w1 afs fmeta None False of
                      (Some err, w2) \<Rightarrow>
                        (Some (Errorf ErrInoperablePath ''error while unpacking: %s''
                                 [ArgError err]), w2, bucket1)
                    | (None, w2) \<Rightarrow> (None, w2, bucket1 @ [(fmeta, None)]))))"

text \<open>
  The outer loop of lines 174 to 236, over the items the tar reader yields: the end of the
  archive first, then the reader's error, then the context, then the entry. \<open>ctx i\<close> says
  whether \<open>ctx.Err()\<close> is non-nil when it is asked at the \<open>i\<close>-th entry.
\<close>

fun unpackEntries ::
  "'w fs_env \<Rightarrow> ('hdr, 'f) tar_env \<Rightarrow> (nat \<Rightarrow> bool) \<Rightarrow> AbsolutePath \<Rightarrow> 'f \<Rightarrow> nat
     \<Rightarrow> 'hdr tar_item list \<Rightarrow> 'w \<Rightarrow> Record list \<Rightarrow> error option \<times> 'w \<times> Record list" where
  "unpackEntries E T ctx afs filt i [] w bucket = (None, w, bucket)"
| "unpackEntries E T ctx afs filt i (Corrupt msg # rest) w bucket =
     (Some (Errorf ErrWareCorrupt ''corrupt tar: %s'' [ArgString msg]), w, bucket)"
| "unpackEntries E T ctx afs filt i (Entry thdr body # rest) w bucket =
     (if ctx i then (Some (Errorf ErrCancelled ''cancelled'' []), w, bucket)
      else
        (case placeEntry E T afs filt thdr body w bucket of
           (Some err, w1, bucket1) \<Rightarrow> (Some err, w1, bucket1)
         | (None, w1, bucket1) \<Rightarrow> unpackEntries E T ctx afs filt (Suc i) rest w1 bucket1))"

text \<open>
  The visitor of lines 240 to 246 run over the records in visiting order: directories get
  their recorded mtime again, the first error ends the walk.
\<close>

fun repaveDirs ::
  "'w fs_env \<Rightarrow> AbsolutePath \<Rightarrow> Record list \<Rightarrow> 'w \<Rightarrow> error option \<times> 'w" where
  "repaveDirs E afs [] w = (None, w)"
| "repaveDirs E afs (record # rest) w =
     (if Type (fst record) \<noteq> Type_Dir then repaveDirs E afs rest w
      else
        (case SetTimesNano E w afs (Name (fst record)) (Mtime (fst record)) (DefaultAtime E) of
           (Some err, w') \<Rightarrow> (Some err, w')
         | (None, w') \<Rightarrow> repaveDirs E afs rest w'))"

definition unpackTar ::
  "'w fs_env \<Rightarrow> ('hdr, 'f) tar_env \<Rightarrow> (nat \<Rightarrow> bool) \<Rightarrow> AbsolutePath \<Rightarrow> 'f \<Rightarrow> string \<Rightarrow> 'w
     \<Rightarrow> (WareID \<times> error option) \<times> 'w" where
  "unpackTar E T ctx afs filt reader w =
     (case
        (case Decompress T reader of
           Inl err \<Rightarrow>
             ((WareID_zero,
               Some (Errorf ErrWareCorrupt ''corrupt tar compression: %s'' [ArgString err])), w)
         | Inr reader2 \<Rightarrow>
             (case unpackEntries E T ctx afs filt 0 (tar_NewReader T reader2) w [] of
                (Some err, w1, bucket) \<Rightarrow> ((WareID_zero, Some err), w1)
              | (None, w1, bucket) \<Rightarrow>
                  (case repaveDirs E afs (Walk_postorder T bucket) w1 of
                     (Some err, w2) \<Rightarrow>
                       ((WareID_zero,
                         Some (Errorf ErrInoperablePath ''error while unpacking: %s''
                                 [ArgError err])), w2)
                   | (None, w2) \<Rightarrow>
                       (case PlaceFile E w2 afs (fst (bucket_Root T bucket)) None False of
                          (Some err, w3) \<Rightarrow>
                            ((WareID_zero,
                              Some (Errorf ErrInoperablePath ''error while unpacking: %s''
                                      [ArgError err])), w3)
                        | (None, w3) \<Rightarrow>
                            ((WareID ''tar'' (Base58Encode T (HashBucket T bucket)), None),
                             w3)))))
      of ((ware, err), w') \<Rightarrow>
        ((ware, RequireErrorHasCategory (CategoryFilterRejection T) err), w'))"

section \<open>The tar transmat: \<open>unpack\<close> and the choice of a warehouse\<close>

text \<open>A call either returns or panics.\<close>

datatype 'a outcome = Panics string | Returns 'a

datatype FilterPurpose = FilterPurposeUnpack | FilterPurposePack

text \<open>
  What \<open>unpack\<close> calls outside the sources at hand: the path conversion (which panics on
  a path that is not absolute: \<open>None\<close>), the processing of the filters, \<open>url.Parse\<close>
  (of which only the scheme is used), the two warehouse controllers and \<open>OpenReader\<close>,
  which returns a reader and an error as Go does. The warehouses may read the filesystem.
  A reader is the byte string it yields. The log calls write to the monitor only and are
  left out.
\<close>

record ('w, 'c, 'rf, 'f) wh_env =
  MustAbsolutePath :: "string \<Rightarrow> AbsolutePath option"
  ProcessFilters :: "'rf \<Rightarrow> FilterPurpose \<Rightarrow> string + 'f"
  url_Parse :: "string \<Rightarrow> string + string"
  kvfs_NewController :: "'w \<Rightarrow> string \<Rightarrow> 'c \<times> error option"
  kvhttp_NewController :: "'w \<Rightarrow> string \<Rightarrow> 'c \<times> error option"
  OpenReader :: "'w \<Rightarrow> 'c \<Rightarrow> WareID \<Rightarrow> string option \<times> error option"

text \<open>
  The loop of lines 87 to 121 over the warehouse addresses; \<open>reader\<close> is the variable
  declared before the loop, which line 111 assigns.
\<close>

fun pickWarehouse ::
  "('w, 'c, 'rf, 'f) wh_env \<Rightarrow> 'w \<Rightarrow> WareID \<Rightarrow> string list \<Rightarrow> string option
     \<Rightarrow> error + string option" where
  "pickWarehouse W w wareID [] reader = Inr reader"
| "pickWarehouse W w wareID (addr # rest) reader =
     (case url_Parse W addr of
        Inl err \<Rightarrow> Inl (Errorf ErrUsage ''failed to parse URI: %s'' [ArgString err])
      | Inr scheme \<Rightarrow>
          (case (if scheme = ''file'' \<or> scheme = ''ca+file''
                 then Some (kvfs_NewController W w addr)
                 else if scheme = ''http'' \<or> scheme = ''ca+http'' \<or> scheme = ''https''
                         \<or> scheme = ''ca+https''
                 then Some (kvhttp_NewController W w addr)
                 else None) of
             None \<Rightarrow>
               Inl (Errorf ErrUsage
                 ''tar unpack doesn't support %q scheme (valid options are 'file', 'ca+file', 'http', 'ca+http', 'https', or 'ca+https')''
                 [ArgString scheme])
           | Some (whCtrl, Some err) \<Rightarrow>
               if category err = ErrWarehouseUnavailable
               then pickWarehouse W w wareID rest reader
               else Inl err
           | Some (whCtrl, None) \<Rightarrow>
               (case OpenReader W w whCtrl wareID of
                  (reader', None) \<Rightarrow> pickWarehouse W w wareID rest reader'
                | (reader', Some err) \<Rightarrow>
                    if category err = ErrWareNotFound
                    then pickWarehouse W w wareID rest reader'
                    else Inl err)))"

definition unpack ::
  "('w, 'c, 'rf, 'f) wh_env \<Rightarrow> 'w fs_env \<Rightarrow> ('hdr, 'f) tar_env \<Rightarrow> (nat \<Rightarrow> bool) \<Rightarrow> WareID
     \<Rightarrow> string \<Rightarrow> 'rf \<Rightarrow> string \<Rightarrow> string list \<Rightarrow> 'w
     \<Rightarrow> ((WareID \<times> error option) \<times> 'w) outcome" where
  "unpack W E T ctx wareID path filt placementMode warehouses w =
     (case MustAbsolutePath W path of
        None \<Rightarrow> Panics ''fs: not an absolute path''
      | Some path2 \<Rightarrow>
          Returns
            (case
               (case ProcessFilters W filt FilterPurposeUnpack of
                  Inl err \<Rightarrow>
                    ((WareID_zero,
                      Some (Errorf ErrUsage ''invalid filter specification: %s''
                              [ArgString err])), w)
                | Inr filt2 \<Rightarrow>
                    (case pickWarehouse W w wareID warehouses None of
                       Inl err \<Rightarrow> ((WareID_zero, Some err), w)
                     | Inr None \<Rightarrow>
                         ((WareID_zero,
                           Some (Errorf ErrWarehouseUnavailable
                                   ''no warehouses were available!'' [])), w)
                     | Inr (Some reader) \<Rightarrow>
                         (case unpackTar E T ctx path2 filt2 reader w of
                            ((gotWare, Some err), w') \<Rightarrow> ((gotWare, Some err), w')
                          | ((gotWare, None), w') \<Rightarrow>
                              if gotWare \<noteq> wareID
                              then ((gotWare,
                                     Some (ErrorDetailed ErrWareHashMismatch
                                       ''hash mismatch: expected %q, got %q''
                                       [ArgString (WareID_String wareID),
                                        ArgString (WareID_String gotWare)]
                                       [(''expected'', WareID_String wareID),
                                        (''actual'', WareID_String gotWare)])), w')
                              else ((gotWare, None), w'))))
             of ((ware, err), w') \<Rightarrow>
               ((ware, RequireErrorHasCategory (CategoryFilterRejection T) err), w')))"

section \<open>The command line\<close>

text \<open>
  The main program (its file name is not known). The argument parser, the three tool
  functions, the rendering of an error and the JSON marshaller are outside the sources at
  hand. The parser reports the command it selected, its error, the format flag as it
  left it, the text it wrote to its usage and error writer (which is the standard error
  stream), and the values of the arguments and flags.
\<close>

record 'rf cli_args =
  arg_PackType :: string
  arg_Path :: string
  arg_WareID :: string
  arg_Filters :: 'rf
  arg_PlacementMode :: string
  arg_TargetWarehouseAddr :: string
  arg_SourcesWarehouseAddr :: "string list"
  arg_SourceWarehouseAddr :: string

record 'rf kingpin_result =
  parsedCmdStr :: string
  parseErr :: "string option"
  baseArgs_Format :: string
  kingpin_wrote :: string
  parsedArgs :: "'rf cli_args"

record Event =
  result_WareID :: WareID
  result_Error :: "error option"

record ('w, 'rf) cli_env =
  app_Parse :: "string list \<Rightarrow> 'rf kingpin_result"
  ParseWareID :: "string \<Rightarrow> error + WareID"
  tartrans_Pack :: "(nat \<Rightarrow> bool) \<Rightarrow> string \<Rightarrow> string \<Rightarrow> 'rf \<Rightarrow> string \<Rightarrow> 'w
                      \<Rightarrow> ((WareID \<times> error option) \<times> 'w) outcome"
  tartrans_Unpack :: "(nat \<Rightarrow> bool) \<Rightarrow> WareID \<Rightarrow> string \<Rightarrow> 'rf \<Rightarrow> string \<Rightarrow> string list \<Rightarrow> 'w
                      \<Rightarrow> ((WareID \<times> error option) \<times> 'w) outcome"
  tartrans_Scan :: "(nat \<Rightarrow> bool) \<Rightarrow> string \<Rightarrow> 'rf \<Rightarrow> string \<Rightarrow> string \<Rightarrow> 'w
                      \<Rightarrow> ((WareID \<times> error option) \<times> 'w) outcome"
  error_Error :: "error \<Rightarrow> string"
  Marshal :: "Event \<Rightarrow> string + string"

text \<open>The two output streams, as the bytes written to them so far.\<close>

record io =
  stdout :: string
  stderr :: string

definition format_Dumb :: string where
  "format_Dumb = ''dumb''"

definition format_Json :: string where
  "format_Json = ''json''"

definition Placement_Direct :: string where
  "Placement_Direct = ''direct''"

text \<open>\<open>outputController.EmitResult\<close>; the controller's format is the first argument.\<close>

definition EmitResult ::
  "('w, 'rf) cli_env \<Rightarrow> string \<Rightarrow> WareID \<Rightarrow> error option \<Rightarrow> io \<Rightarrow> io outcome" where
  "EmitResult C fmt wareID err out =
     (let evt = \<lparr>result_WareID = wareID, result_Error = err\<rparr> in
      if fmt = [] \<or> fmt = format_Dumb
      then (case err of
              Some e \<Rightarrow> Returns (out\<lparr>stderr := stderr out @ error_Error C e @ ''\<newline>''\<rparr>)
            | None \<Rightarrow> Returns (out\<lparr>stdout := stdout out @ WareID_String wareID @ ''\<newline>''\<rparr>))
      else if fmt = format_Json
      then
        (let out1 = (case err of
                       Some e \<Rightarrow> out\<lparr>stderr := stderr out @ error_Error C e @ ''\<newline>''\<rparr>
                     | None \<Rightarrow> out) in
         case Marshal C evt of
           Inl merr \<Rightarrow> Panics merr
         | Inr txt \<Rightarrow> Returns (out1\<lparr>stdout := stdout out1 @ txt\<rparr>))
      else Panics ''rio: invalid format %s'')"

text \<open>The three demultiplexers: only the pack type \<open>tar\<close> is known.\<close>

definition demuxPackTool :: "string \<Rightarrow> error option" where
  "demuxPackTool packType =
     (if packType = ''tar'' then None
      else Some (Errorf ErrUsage ''unsupported packtype %q'' [ArgString packType]))"

definition demuxUnpackTool :: "string \<Rightarrow> error option" where
  "demuxUnpackTool packType =
     (if packType = ''tar'' then None
      else Some (Errorf ErrUsage ''unsupported packtype %q'' [ArgString packType]))"

definition demuxScanTool :: "string \<Rightarrow> error option" where
  "demuxScanTool packType =
     (if packType = ''tar'' then None
      else Some (Errorf ErrUsage ''unsupported packtype %q'' [ArgString packType]))"

text \<open>
  The behaviour \<open>Parse\<close> returns: the action of one of the three commands, or the action
  that reports the parser's error.
\<close>

datatype behavior = BhvPack | BhvUnpack | BhvScan | BhvParseError string

text \<open>
  The tool call at the heart of each command's action, before the result is emitted:
  the Ware ID and the error it ends with.
\<close>

definition toolCall ::
  "('w, 'rf) cli_env \<Rightarrow> (nat \<Rightarrow> bool) \<Rightarrow> behavior \<Rightarrow> 'rf cli_args \<Rightarrow> 'w
     \<Rightarrow> ((WareID \<times> error option) \<times> 'w) outcome" where
  "toolCall C ctx bhv a w =
     (case bhv of
        BhvPack \<Rightarrow>
          (case demuxPackTool (arg_PackType a) of
             Some err \<Rightarrow> Returns ((WareID_zero, Some err), w)
           | None \<Rightarrow>
               tartrans_Pack C ctx (arg_PackType a) (arg_Path a) (arg_Filters a)
                 (arg_TargetWarehouseAddr a) w)
      | BhvUnpack \<Rightarrow>
          (case ParseWareID C (arg_WareID a) of
             Inl err \<Rightarrow> Returns ((WareID_zero, Some err), w)
           | Inr wareID \<Rightarrow>
               (case demuxUnpackTool (ware_Type wareID) of
                  Some err \<Rightarrow> Returns ((WareID_zero, Some err), w)
                | None \<Rightarrow>
                    tartrans_Unpack C ctx wareID (arg_Path a) (arg_Filters a)
                      (arg_PlacementMode a) (arg_SourcesWarehouseAddr a) w))
      | BhvScan \<Rightarrow>
          (case demuxScanTool (arg_PackType a) of
             Some err \<Rightarrow> Returns ((WareID_zero, Some err), w)
           | None \<Rightarrow>
               tartrans_Scan C ctx (arg_PackType a) (arg_Filters a) Placement_Direct
                 (arg_SourceWarehouseAddr a) w)
      | BhvParseError msg \<Rightarrow>
          Returns ((WareID_zero,
                    Some (Errorf ErrUsage ''error parsing args: %s'' [ArgString msg])), w))"

text \<open>
  An action as the loop of lines 228 to 237 has wrapped it: a success is emitted by the
  action itself, an error by the wrapper, with the zero Ware ID. The action for a parse
  error emits its error itself. Either way the action returns the error.
\<close>

definition action ::
  "('w, 'rf) cli_env \<Rightarrow> (nat \<Rightarrow> bool) \<Rightarrow> string \<Rightarrow> behavior \<Rightarrow> 'rf cli_args \<Rightarrow> 'w \<times> io
     \<Rightarrow> (error option \<times> 'w \<times> io) outcome" where
  "action C ctx fmt bhv a s =
     (case toolCall C ctx bhv a (fst s) of
        Panics msg \<Rightarrow> Panics msg
      | Returns ((resultWareID, Some err), w') \<Rightarrow>
          (case EmitResult C fmt WareID_zero (Some err) (snd s) of
             Panics msg \<Rightarrow> Panics msg
           | Returns out' \<Rightarrow> Returns (Some err, w', out'))
      | Returns ((resultWareID, None), w') \<Rightarrow>
          (case EmitResult C fmt resultWareID None (snd s) of
             Panics msg \<Rightarrow> Panics msg
           | Returns out' \<Rightarrow> Returns (None, w', out')))"

text \<open>
  The end of \<open>Parse\<close> (lines 242 to 256): the behaviour for a parser error, or the one
  the map of behaviours holds under the name of the selected command.
\<close>

definition lookupBehavior :: "'rf kingpin_result \<Rightarrow> behavior option" where
  "lookupBehavior r =
     (case parseErr r of
        Some err \<Rightarrow> Some (BhvParseError err)
      | None \<Rightarrow>
          if parsedCmdStr r = ''pack'' then Some BhvPack
          else if parsedCmdStr r = ''unpack'' then Some BhvUnpack
          else if parsedCmdStr r = ''scan'' then Some BhvScan
          else None)"

text \<open>
  \<open>Parse\<close>: run the parser on the arguments after the program name, take the format from
  the base arguments, and pick the behaviour. The parser's own output goes to the
  standard error stream.
\<close>

definition Parse ::
  "('w, 'rf) cli_env \<Rightarrow> string list \<Rightarrow> io \<Rightarrow> (behavior \<times> string \<times> 'rf cli_args \<times> io) outcome" where
  "Parse C argv out =
     (if argv = [] then Panics ''slice bounds out of range''
      else
        let r = app_Parse C (tl argv);
            out1 = out\<lparr>stderr := stderr out @ kingpin_wrote r\<rparr>;
            fmt = baseArgs_Format r
        in (case lookupBehavior r of
              None \<Rightarrow> Panics ''unreachable, cli parser must error on unknown commands''
            | Some bhv \<Rightarrow> Returns (bhv, fmt, parsedArgs r, out1)))"

text \<open>
  Modelled from the spec: \<open>rio.ExitCodeForError\<close> is not part of the sources at hand; the
  table of exit codes is that of section 6 of the specification.
\<close>

definition ExitCodeForError :: "error option \<Rightarrow> int" where
  "ExitCodeForError e =
     (case e of
        None \<Rightarrow> 0
      | Some err \<Rightarrow>
          (case category err of
             ErrUsage \<Rightarrow> 2
           | ErrWarehouseUnavailable \<Rightarrow> 3
           | ErrWareNotFound \<Rightarrow> 4
           | ErrWareCorrupt \<Rightarrow> 5
           | ErrWareHashMismatch \<Rightarrow> 6
           | ErrCancelled \<Rightarrow> 7
           | ErrInoperablePath \<Rightarrow> 10
           | ErrLocalCacheProblem \<Rightarrow> 11
           | _ \<Rightarrow> 1))"

definition Main ::
  "('w, 'rf) cli_env \<Rightarrow> (nat \<Rightarrow> bool) \<Rightarrow> string list \<Rightarrow> 'w \<times> io \<Rightarrow> (int \<times> 'w \<times> io) outcome" where
  "Main C ctx argv s =
     (case Parse C argv (snd s) of
        Panics msg \<Rightarrow> Panics msg
      | Returns (bhv, fmt, a, out1) \<Rightarrow>
          (case action C ctx fmt bhv a (fst s, out1) of
             Panics msg \<Rightarrow> Panics msg
           | Returns (err, w', out') \<Rightarrow> Returns (ExitCodeForError err, w', out')))"

section \<open>Notions the statements use\<close>

text \<open>
  The test of lines 208 to 212: \<open>LStat\<close> fails on the path and the error is a
  does-not-exist error.
\<close>

definition reportsMissing :: "'w fs_env \<Rightarrow> AbsolutePath \<Rightarrow> 'w \<Rightarrow> RelPath \<Rightarrow> bool" where
  "reportsMissing E afs w p =
     (case LStat E w afs p of Inl err \<Rightarrow> os_IsNotExist E err | Inr st \<Rightarrow> False)"

text \<open>The paths the inner loop goes through: the path, its parent, up to below the root.\<close>

definition ancestors :: "RelPath \<Rightarrow> RelPath list" where
  "ancestors p = map (\<lambda>n. take n p) (rev [1 ..< Suc (length p)])"

text \<open>The record of a conjured directory: the default metadata under the path's name.\<close>

definition conjured :: "('hdr, 'f) tar_env \<Rightarrow> RelPath \<Rightarrow> Record" where
  "conjured T p = ((DefaultDirMetadata T)\<lparr>Name := p\<rparr>, None)"

text \<open>
  The filesystem after the listed directories have been conjured, one after the other.
\<close>

definition conjureAll ::
  "'w fs_env \<Rightarrow> ('hdr, 'f) tar_env \<Rightarrow> AbsolutePath \<Rightarrow> 'w \<Rightarrow> RelPath list \<Rightarrow> 'w" where
  "conjureAll E T afs w qs =
     foldl (\<lambda>w q. snd (PlaceFile E w afs (fst (conjured T q)) None False)) w qs"

text \<open>A list that is what is left of another when some of its elements are taken out.\<close>

fun isSubsequence :: "'a list \<Rightarrow> 'a list \<Rightarrow> bool" where
  "isSubsequence [] ys = True"
| "isSubsequence (x # xs) [] = False"
| "isSubsequence (x # xs) (y # ys) =
     (if x = y then isSubsequence xs ys else isSubsequence (x # xs) ys)"



text \<open>The mtime a path has on disk, as \<open>LStat\<close> reports it.\<close>

definition mtimeOnDisk :: "'w fs_env \<Rightarrow> AbsolutePath \<Rightarrow> 'w \<Rightarrow> RelPath \<Rightarrow> int option" where
  "mtimeOnDisk E afs w p =
     (case LStat E w afs p of Inl err \<Rightarrow> None | Inr st \<Rightarrow> Some (Mtime st))"

text \<open>What a call returned, if it returned.\<close>

definition returned :: "'a outcome \<Rightarrow> 'a option" where
  "returned r = (case r of Panics msg \<Rightarrow> None | Returns x \<Rightarrow> Some x)"

section \<open>A filesystem in memory\<close>

text \<open>
  A small instance of the parameters, on which the theorems below are run: the
  filesystem is a list of nodes keyed by their absolute path, the newest first; placing a
  node bumps the mtime of its parent directory to the clock's value, as a real filesystem
  does.
\<close>

type_synonym mem_world = "(string list \<times> Metadata \<times> string) list"

definition mem_key :: "AbsolutePath \<Rightarrow> RelPath \<Rightarrow> string list" where
  "mem_key root rel = components root @ rel"

definition mem_now :: int where
  "mem_now = 1700000000"

definition mem_missing :: "RelPath \<Rightarrow> error" where
  "mem_missing rel = Err ErrNotExists ''path %q does not exist'' [ArgString (RelPath_String rel)] []"

definition mem_LStat :: "mem_world \<Rightarrow> AbsolutePath \<Rightarrow> RelPath \<Rightarrow> error + Metadata" where
  "mem_LStat w root rel =
     (case map_of w (mem_key root rel) of
        None \<Rightarrow> Inl (mem_missing rel)
      | Some (m, c) \<Rightarrow> Inr (m\<lparr>Name := rel\<rparr>))"

definition mem_touch_parent :: "mem_world \<Rightarrow> string list \<Rightarrow> mem_world" where
  "mem_touch_parent w key =
     (if key = [] then w
      else (case map_of w (butlast key) of
              None \<Rightarrow> w
            | Some (m, c) \<Rightarrow> (butlast key, m\<lparr>Mtime := mem_now\<rparr>, c) # w))"

definition mem_PlaceFile ::
  "mem_world \<Rightarrow> AbsolutePath \<Rightarrow> Metadata \<Rightarrow> string option \<Rightarrow> bool \<Rightarrow> error option \<times> mem_world" where
  "mem_PlaceFile w root m body skipChown =
     (let key = mem_key root (Name m) in
      if key \<noteq> [] \<and> (case map_of w (butlast key) of
                         None \<Rightarrow> True
                       | Some (pm, c) \<Rightarrow> Type pm \<noteq> Type_Dir)
      then (Some (Err ErrNotDir ''parent of %q is not a directory''
                    [ArgString (RelPath_String (Name m))] []), w)
      else if Type m = Type_Invalid
      then (Some (Err ErrIOUnknown ''cannot place a node of unknown type'' [] []), w)
      else (None, mem_touch_parent
                    ((key, m, (case body of None \<Rightarrow> [] | Some b \<Rightarrow> b)) # w) key))"

definition mem_SetTimesNano ::
  "mem_world \<Rightarrow> AbsolutePath \<Rightarrow> RelPath \<Rightarrow> int \<Rightarrow> int \<Rightarrow> error option \<times> mem_world" where
  "mem_SetTimesNano w root rel mt at =
     (case map_of w (mem_key root rel) of
        None \<Rightarrow> (Some (mem_missing rel), w)
      | Some (m, c) \<Rightarrow> (None, (mem_key root rel, m\<lparr>Mtime := mt\<rparr>, c) # w))"

definition mem_ScanFile ::
  "mem_world \<Rightarrow> AbsolutePath \<Rightarrow> RelPath \<Rightarrow> error + (Metadata \<times> string option)" where
  "mem_ScanFile w root rel =
     (case map_of w (mem_key root rel) of
        None \<Rightarrow> Inl (mem_missing rel)
      | Some (m, c) \<Rightarrow> Inr (m\<lparr>Name := rel\<rparr>, if Type m = Type_File then Some c else None))"

definition mem_RepairMtime :: "mem_world \<Rightarrow> AbsolutePath \<Rightarrow> RelPath \<Rightarrow> mem_world \<Rightarrow> mem_world" where
  "mem_RepairMtime w root rel =
     (case map_of w (mem_key root rel) of
        None \<Rightarrow> (\<lambda>w'. w')
      | Some (m, c) \<Rightarrow> (\<lambda>w'. snd (mem_SetTimesNano w' root rel (Mtime m) 0)))"

definition mem_under :: "string \<Rightarrow> string list \<Rightarrow> bool" where
  "mem_under s key =
     (let k = ''/'' @ join_slash key in k = s \<or> HasPrefix k (s @ ''/''))"

definition mem_RemoveAll :: "mem_world \<Rightarrow> string \<Rightarrow> error option \<times> mem_world" where
  "mem_RemoveAll w s = (None, filter (\<lambda>(k, v). \<not> mem_under s k) w)"

definition mem_Remove :: "mem_world \<Rightarrow> string \<Rightarrow> error option \<times> mem_world" where
  "mem_Remove w s =
     (if \<exists>(k, v) \<in> set w. ''/'' @ join_slash k = s
      then (None, filter (\<lambda>(k, v). ''/'' @ join_slash k \<noteq> s) w)
      else (Some (Err ErrNotExists ''remove %s: no such file or directory'' [ArgString s] []), w))"

fun mem_visit ::
  "(FilewalkNode \<Rightarrow> mem_world \<Rightarrow> error option \<times> mem_world)
     \<Rightarrow> (FilewalkNode \<Rightarrow> mem_world \<Rightarrow> error option \<times> mem_world)
     \<Rightarrow> FilewalkNode list \<Rightarrow> mem_world \<Rightarrow> error option \<times> mem_world" where
  "mem_visit pre post [] w = (None, w)"
| "mem_visit pre post (n # ns) w =
     (case pre n w of
        (Some e, w1) \<Rightarrow> (Some e, w1)
      | (None, w1) \<Rightarrow>
          (case post n w1 of
             (Some e, w2) \<Rightarrow> (Some e, w2)
           | (None, w2) \<Rightarrow> mem_visit pre post ns w2))"

text \<open>A walker for trees one level deep: the root, then its children, then the root.\<close>

definition mem_children :: "mem_world \<Rightarrow> string list \<Rightarrow> FilewalkNode list" where
  "mem_children w src =
     map (\<lambda>k. \<lparr>Info = (fst (the (map_of w k)))\<lparr>Name := [last k]\<rparr>, NodeErr = None\<rparr>)
       (remdups (filter (\<lambda>k. k \<noteq> [] \<and> butlast k = src) (map fst w)))"

definition mem_Walk ::
  "AbsolutePath \<Rightarrow> (FilewalkNode \<Rightarrow> mem_world \<Rightarrow> error option \<times> mem_world)
     \<Rightarrow> (FilewalkNode \<Rightarrow> mem_world \<Rightarrow> error option \<times> mem_world)
     \<Rightarrow> mem_world \<Rightarrow> error option \<times> mem_world" where
  "mem_Walk srcFs pre post w =
     (case map_of w (components srcFs) of
        None \<Rightarrow>
          pre \<lparr>Info = \<lparr>Name = [], Type = Type_Invalid, Perms = 0, Uid = 0, Gid = 0, Size = 0,
                       Linkname = [], Devmajor = 0, Devminor = 0, Mtime = 0\<rparr>,
               NodeErr = Some (mem_missing [])\<rparr> w
      | Some (m, c) \<Rightarrow>
          (case pre \<lparr>Info = m\<lparr>Name := []\<rparr>, NodeErr = None\<rparr> w of
             (Some e, w1) \<Rightarrow> (Some e, w1)
           | (None, w1) \<Rightarrow>
               (case mem_visit pre post (mem_children w (components srcFs)) w1 of
                  (Some e, w2) \<Rightarrow> (Some e, w2)
                | (None, w2) \<Rightarrow> post \<lparr>Info = m\<lparr>Name := []\<rparr>, NodeErr = None\<rparr> w2)))"

definition mem_fs :: "mem_world fs_env" where
  "mem_fs =
     \<lparr>LStat = mem_LStat, SetTimesNano = mem_SetTimesNano, PlaceFile = mem_PlaceFile,
      ScanFile = mem_ScanFile, RepairMtime = mem_RepairMtime, os_RemoveAll = mem_RemoveAll,
      os_Remove = mem_Remove, os_IsNotExist = (\<lambda>e. category e = ErrNotExists),
      Walk = mem_Walk, DefaultAtime = 0\<rparr>"

definition mem_dir :: "int \<Rightarrow> Metadata" where
  "mem_dir t = \<lparr>Name = [], Type = Type_Dir, Perms = 493, Uid = 0, Gid = 0, Size = 0,
               Linkname = [], Devmajor = 0, Devminor = 0, Mtime = t\<rparr>"

definition mem_file :: "RelPath \<Rightarrow> int \<Rightarrow> int \<Rightarrow> Metadata" where
  "mem_file n u t = \<lparr>Name = n, Type = Type_File, Perms = 420, Uid = u, Gid = u, Size = 0,
                    Linkname = [], Devmajor = 0, Devminor = 0, Mtime = t\<rparr>"

text \<open>
  The world the examples start from: a cache directory holding a file, a symlink, a
  directory with one file in it and a directory with a node that cannot be placed, and a
  target directory that already has content.
\<close>

definition mem_w0 :: mem_world where
  "mem_w0 =
     [([''cache'', ''f''], mem_file [] 7 100, ''hello''),
      ([''cache'', ''l''], (mem_file [] 7 100)\<lparr>Type := Type_Symlink, Linkname := ''f''\<rparr>, []),
      ([''cache'', ''d'', ''x''], mem_file [] 7 120, ''xyz''),
      ([''cache'', ''d''], mem_dir 110, []),
      ([''cache'', ''bad'', ''y''], (mem_file [] 7 130)\<lparr>Type := Type_Invalid\<rparr>, []),
      ([''cache'', ''bad''], mem_dir 140, []),
      ([''cache''], mem_dir 50, []),
      ([''t'', ''old''], mem_file [] 3 70, ''stale''),
      ([''t''], mem_dir 60, []),
      ([], mem_dir 10, [])]"



text \<open>
  Two worlds that hold the same nodes outside a path, and the example world with other
  content in its target directory: another \<open>old\<close>, and a directory \<open>more\<close> with a
  file in it.
\<close>

definition mem_same_outside :: "string \<Rightarrow> mem_world \<Rightarrow> mem_world \<Rightarrow> bool" where
  "mem_same_outside s u v =
     (filter (\<lambda>(k, x). \<not> mem_under s k) u = filter (\<lambda>(k, x). \<not> mem_under s k) v)"

definition mem_w0_other :: mem_world where
  "mem_w0_other =
     ([''t'', ''more'', ''z''], mem_file [] 9 80, ''other'')
     # ([''t'', ''more''], mem_dir 85, [])
     # map (\<lambda>(k, m, c). if k = [''t'', ''old''] then (k, m\<lparr>Uid := 4\<rparr>, ''changed'') else (k, m, c))
         mem_w0"

subsection \<open>Filters, codec and bucket of the instance\<close>

text \<open>
  Modelled from the spec: the processed filters of section 3 (a value to force, or keep
  the source's) and the function \<open>Apply\<close> of section 4.3, which package \<open>filters\<close>
  implements outside the sources at hand.
\<close>

record FilesetFilters =
  filt_Uid :: "int option"
  filt_Gid :: "int option"
  filt_Mtime :: "int option"
  filt_StickyKeep :: bool

definition mem_Apply :: "FilesetFilters \<Rightarrow> Metadata \<Rightarrow> Metadata" where
  "mem_Apply filt m =
     m\<lparr>Uid := (case filt_Uid filt of None \<Rightarrow> Uid m | Some u \<Rightarrow> u),
       Gid := (case filt_Gid filt of None \<Rightarrow> Gid m | Some g \<Rightarrow> g),
       Mtime := (case filt_Mtime filt of None \<Rightarrow> Mtime m | Some t \<Rightarrow> t),
       Perms := (if filt_StickyKeep filt then Perms m else Perms m mod 512)\<rparr>"

definition mem_DefaultDirMetadata :: Metadata where
  "mem_DefaultDirMetadata =
     \<lparr>Name = [], Type = Type_Dir, Perms = 493, Uid = 1000, Gid = 1000, Size = 0,
      Linkname = [], Devmajor = 0, Devminor = 0, Mtime = 1262304000\<rparr>"

definition mem_with_root :: "Record list \<Rightarrow> Record list" where
  "mem_with_root b =
     (if \<exists>r \<in> set b. Name (fst r) = [] then b else (mem_DefaultDirMetadata, None) # b)"

definition mem_Root :: "Record list \<Rightarrow> Record" where
  "mem_Root b =
     (case find (\<lambda>r. Name (fst r) = []) b of
        Some r \<Rightarrow> r
      | None \<Rightarrow> (mem_DefaultDirMetadata, None))"

text \<open>
  The instance's digest is the list of the names and content hashes of the records, so
  that two buckets with different names have different digests.
\<close>

definition mem_HashBucket :: "Record list \<Rightarrow> string" where
  "mem_HashBucket b =
     concat (map (\<lambda>r. RelPath_String (Name (fst r)) @ ''=''
                        @ (case snd r of None \<Rightarrow> ''-'' | Some h \<Rightarrow> h) @ '';'')
                 (mem_with_root b))"

definition mem_reject :: "error \<Rightarrow> error" where
  "mem_reject e = Err ErrForeign ''errcat: category filter rejection'' [ArgError e] []"

text \<open>The instance's archives are named: a table gives the items of each.\<close>

definition mem_tar ::
  "(string \<times> Metadata tar_item list) list \<Rightarrow> (Metadata, FilesetFilters) tar_env" where
  "mem_tar blobs =
     \<lparr>Decompress = (\<lambda>s. if HasPrefix s ''!'' then Inl ''bad magic'' else Inr s),
      tar_NewReader = (\<lambda>s. case map_of blobs s of
                             None \<Rightarrow> [Corrupt ''unexpected EOF'']
                           | Some items \<Rightarrow> items),
      TarHdrToMetadata = (\<lambda>h. if Type h = Type_Invalid
                               then Inl (Errorf ErrWareCorrupt ''unknown typeflag'' [])
                               else Inr h),
      filters_Apply = mem_Apply,
      DefaultDirMetadata = mem_DefaultDirMetadata,
      sha384 = (\<lambda>body. body),
      Walk_postorder = (\<lambda>b. rev (mem_with_root b)),
      bucket_Root = mem_Root,
      HashBucket = mem_HashBucket,
      Base58Encode = (\<lambda>h. h),
      CategoryFilterRejection = mem_reject\<rparr>"

definition mem_keep :: FilesetFilters where
  "mem_keep = \<lparr>filt_Uid = None, filt_Gid = None, filt_Mtime = None, filt_StickyKeep = True\<rparr>"

definition mem_force :: FilesetFilters where
  "mem_force = \<lparr>filt_Uid = Some 0, filt_Gid = Some 0, filt_Mtime = Some 5,
                 filt_StickyKeep = True\<rparr>"

definition mem_blobs :: "(string \<times> Metadata tar_item list) list" where
  "mem_blobs =
     [(''one'', [Entry (mem_file [''a'', ''b''] 7 100) ''hello'']),
      (''two'', [Entry ((mem_dir 200)\<lparr>Name := [''a'']\<rparr>) [],
                Entry (mem_file [''a'', ''b''] 7 100) ''world'']),
      (''evil'', [Entry (mem_file [''ok''] 7 100) ''fine'',
                 Entry (mem_file [''..'', ''etc'', ''passwd''] 0 100) ''root::0:0'',
                 Entry (mem_file [''later''] 7 100) ''never'']),
      (''empty'', [])]"

subsection \<open>Warehouses of the instance\<close>

datatype mem_warehouse = WhUnavailable | WhNotFound | WhHas string | WhBroken

fun mem_scheme :: "string \<Rightarrow> string" where
  "mem_scheme [] = []"
| "mem_scheme (c # cs) = (if c = CHR '':'' then [] else c # mem_scheme cs)"

fun split_slash :: "string \<Rightarrow> string \<Rightarrow> string list" where
  "split_slash cur [] = (if cur = [] then [] else [cur])"
| "split_slash cur (c # cs) =
     (if c = CHR ''/''
      then (if cur = [] then split_slash [] cs else cur # split_slash [] cs)
      else split_slash (cur @ [c]) cs)"

definition mem_NewController ::
  "(string \<times> mem_warehouse) list \<Rightarrow> mem_world \<Rightarrow> string \<Rightarrow> string \<times> error option" where
  "mem_NewController whs w addr =
     (addr, case map_of whs addr of
              Some WhUnavailable \<Rightarrow>
                Some (Errorf ErrWarehouseUnavailable ''warehouse unavailable'' [])
            | Some _ \<Rightarrow> None
            | None \<Rightarrow> Some (Errorf ErrWarehouseUnavailable ''warehouse unavailable'' []))"

definition mem_OpenReader ::
  "(string \<times> mem_warehouse) list \<Rightarrow> mem_world \<Rightarrow> string \<Rightarrow> WareID
     \<Rightarrow> string option \<times> error option" where
  "mem_OpenReader whs w ctrl wareID =
     (case map_of whs ctrl of
        Some (WhHas blob) \<Rightarrow> (Some blob, None)
      | Some WhNotFound \<Rightarrow> (None, Some (Errorf ErrWareNotFound ''ware not found'' []))
      | _ \<Rightarrow> (None, Some (Err ErrPermission ''permission denied'' [] [])))"

definition mem_wh ::
  "(string \<times> mem_warehouse) list
     \<Rightarrow> (mem_world, string, FilesetFilters, FilesetFilters) wh_env" where
  "mem_wh whs =
     \<lparr>MustAbsolutePath = (\<lambda>s. if HasPrefix s ''/'' then Some (AbsolutePath (split_slash [] s))
                              else None),
      ProcessFilters = (\<lambda>filt purpose. Inr filt),
      url_Parse = (\<lambda>addr. Inr (mem_scheme addr)),
      kvfs_NewController = mem_NewController whs,
      kvhttp_NewController = mem_NewController whs,
      OpenReader = mem_OpenReader whs\<rparr>"

definition mem_whs :: "(string \<times> mem_warehouse) list" where
  "mem_whs =
     [(''file://A'', WhUnavailable),
      (''file://B'', WhNotFound),
      (''file://C'', WhHas ''one''),
      (''http://D'', WhHas ''two''),
      (''file://E'', WhBroken)]"

subsection \<open>Command line of the instance\<close>

definition mem_usage :: string where
  "mem_usage = ''usage: rio [<flags>] <command> [<args> ...]\<newline>''"

definition mem_no_args :: "FilesetFilters cli_args" where
  "mem_no_args =
     \<lparr>arg_PackType = [], arg_Path = [], arg_WareID = [], arg_Filters = mem_keep,
      arg_PlacementMode = [], arg_TargetWarehouseAddr = [], arg_SourcesWarehouseAddr = [],
      arg_SourceWarehouseAddr = []\<rparr>"

text \<open>
  A parser for the instance: the format flag, the source flags, and the positional
  arguments of \<open>unpack\<close>. Like the real one it sets the flags it has read before it
  reports that no command was selected, and writes the usage to its writer then.
\<close>

definition mem_app_Parse :: "string list \<Rightarrow> FilesetFilters kingpin_result" where
  "mem_app_Parse as =
     (let fmt = (if ''--format=json'' \<in> set as then ''json'' else ''dumb'');
          srcs = map (drop 9) (filter (\<lambda>a. HasPrefix a ''--source='') as);
          pos = filter (\<lambda>a. \<not> HasPrefix a ''--'') as
      in case pos of
           [cmd, p, wid] \<Rightarrow>
             if cmd = ''unpack''
             then \<lparr>parsedCmdStr = ''unpack'', parseErr = None, baseArgs_Format = fmt,
                   kingpin_wrote = [],
                   parsedArgs = mem_no_args\<lparr>arg_Path := p, arg_WareID := wid,
                                              arg_SourcesWarehouseAddr := srcs\<rparr>\<rparr>
             else \<lparr>parsedCmdStr = [], parseErr = Some ''expected command but got something else'',
                   baseArgs_Format = fmt, kingpin_wrote = mem_usage, parsedArgs = mem_no_args\<rparr>
         | _ \<Rightarrow>
             \<lparr>parsedCmdStr = [], parseErr = Some ''must select a subcommand of rio'',
              baseArgs_Format = fmt, kingpin_wrote = mem_usage, parsedArgs = mem_no_args\<rparr>)"

fun mem_after_colon :: "string \<Rightarrow> string option" where
  "mem_after_colon [] = None"
| "mem_after_colon (c # cs) = (if c = CHR '':'' then Some cs else mem_after_colon cs)"

definition mem_ParseWareID :: "string \<Rightarrow> error + WareID" where
  "mem_ParseWareID s =
     (case mem_after_colon s of
        None \<Rightarrow> Inl (Errorf ErrUsage ''ware IDs must have contain a colon character'' [])
      | Some h \<Rightarrow> Inr (WareID (mem_scheme s) h))"

text \<open>
  Modelled from the spec: the result event of section 6, which the JSON codec (outside
  the sources at hand) writes; the error object is cut down to its message.
\<close>

definition mem_Marshal :: "Event \<Rightarrow> string + string" where
  \<open>mem_Marshal evt =
     Inr (''{"prog":null,"result":{"wareID":"'' @ WareID_String (result_WareID evt)
          @ ''","error":''
          @ (case result_Error evt of
               None \<Rightarrow> ''null''
             | Some e \<Rightarrow> ''{"message":"'' @ format e @ ''"}'')
          @ ''}}'')\<close>

definition mem_cli ::
  "(string \<times> mem_warehouse) list \<Rightarrow> (string \<times> Metadata tar_item list) list
     \<Rightarrow> (mem_world, FilesetFilters) cli_env" where
  "mem_cli whs blobs =
     \<lparr>app_Parse = mem_app_Parse,
      ParseWareID = mem_ParseWareID,
      tartrans_Pack = (\<lambda>ctx packType path filt target w.
         Returns ((WareID_zero, Some (Errorf ErrWarehouseUnavailable ''no warehouse'' [])), w)),
      tartrans_Unpack = (\<lambda>ctx wareID path filt placementMode sources w.
         unpack (mem_wh whs) mem_fs (mem_tar blobs) ctx wareID path filt placementMode sources w),
      tartrans_Scan = (\<lambda>ctx packType filt placementMode source w.
         Returns ((WareID_zero, Some (Errorf ErrWarehouseUnavailable ''no warehouse'' [])), w)),
      error_Error = format,
      Marshal = mem_Marshal\<rparr>"

definition mem_io0 :: io where
  "mem_io0 = \<lparr>stdout = [], stderr = []\<rparr>"

section \<open>The copy placer: what was proved\<close>

lemma mem_LStat_nope:
  "LStat mem_fs mem_w0 rootFs (CoerceRelative (AbsolutePath [''nope''])) =
     Inl (mem_missing [''nope''])"
  by code_simp

lemma mem_LStat_link:
  "LStat mem_fs mem_w0 rootFs (CoerceRelative (AbsolutePath [''cache'', ''l''])) =
     Inr ((mem_file [''cache'', ''l''] 7 100)\<lparr>Type := Type_Symlink, Linkname := ''f''\<rparr>)"
  by code_simp

text \<open>
  C7, as the code has it. When \<open>LStat\<close> fails on the source (the source is missing),
  \<open>CopyPlacer\<close> returns an error of category \<open>ErrLocalCacheProblem\<close>; when the source is
  there but is neither a plain file nor a directory, the error has category
  \<open>ErrAssemblyInvalid\<close>. In both cases the cleanup handle is nil and the filesystem is
  left as it was: nothing is removed, nothing copied.
\<close>

theorem CopyPlacer_precondition_errors:
  "(\<forall>err. LStat E w rootFs (CoerceRelative srcPath) = Inl err \<longrightarrow>
      CopyPlacer E srcPath dstPath writable w =
        ((None, Some (Errorf ErrLocalCacheProblem ''error placing with copy placer: %s''
                        [ArgError err])), w))
   \<and> (\<forall>st. LStat E w rootFs (CoerceRelative srcPath) = Inr st \<longrightarrow>
         Type st \<noteq> Type_File \<longrightarrow> Type st \<noteq> Type_Dir \<longrightarrow>
         (\<exists>e. CopyPlacer E srcPath dstPath writable w = ((None, Some e), w)
              \<and> category e = ErrAssemblyInvalid))"
  by (simp add: CopyPlacer_def Errorf_def)

text \<open>
  The theorem at work in the in-memory filesystem: a source that does not exist, and a
  source that is a symlink.
\<close>

theorem CopyPlacer_precondition_errors_witness:
  "LStat mem_fs mem_w0 rootFs (CoerceRelative (AbsolutePath [''nope''])) =
     Inl (mem_missing [''nope''])
   \<and> CopyPlacer mem_fs (AbsolutePath [''nope'']) (AbsolutePath [''t'']) False mem_w0 =
       ((None, Some (Errorf ErrLocalCacheProblem ''error placing with copy placer: %s''
                       [ArgError (mem_missing [''nope''])])), mem_w0)
   \<and> map_option Type (case LStat mem_fs mem_w0 rootFs
                            (CoerceRelative (AbsolutePath [''cache'', ''l''])) of
                        Inl e \<Rightarrow> None | Inr st \<Rightarrow> Some st) = Some Type_Symlink
   \<and> map_option category
       (snd (fst (CopyPlacer mem_fs (AbsolutePath [''cache'', ''l'']) (AbsolutePath [''t''])
                    False mem_w0))) = Some ErrAssemblyInvalid
   \<and> snd (CopyPlacer mem_fs (AbsolutePath [''cache'', ''l'']) (AbsolutePath [''t''])
            False mem_w0) = mem_w0"
  using CopyPlacer_precondition_errors
          [of mem_fs mem_w0 "AbsolutePath [''nope'']" "AbsolutePath [''t'']" False]
        CopyPlacer_precondition_errors
          [of mem_fs mem_w0 "AbsolutePath [''cache'', ''l'']" "AbsolutePath [''t'']" False]
        mem_LStat_nope mem_LStat_link
  by (auto simp: mem_file_def)

text \<open>
  C7 as the specification states it fails: for a missing source the category of the error
  is \<open>ErrLocalCacheProblem\<close>, not \<open>ErrAssemblyInvalid\<close>.
\<close>

theorem CopyPlacer_source_missing_counterexample:
  "LStat mem_fs mem_w0 rootFs (CoerceRelative (AbsolutePath [''nope''])) =
     Inl (mem_missing [''nope''])
   \<and> map_option category
       (snd (fst (CopyPlacer mem_fs (AbsolutePath [''nope'']) (AbsolutePath [''t''])
                    False mem_w0))) = Some ErrLocalCacheProblem
   \<and> map_option category
       (snd (fst (CopyPlacer mem_fs (AbsolutePath [''nope'']) (AbsolutePath [''t''])
                    False mem_w0))) \<noteq> Some ErrAssemblyInvalid"
  by (simp add: CopyPlacer_def mem_LStat_nope Errorf_def)

text \<open>
  C10. Let the source be a plain file or a directory. If the recursive removal of the
  destination fails, \<open>CopyPlacer\<close> ends there with \<open>ErrAssemblyInvalid\<close> and nothing is
  copied. If it succeeds, the copy (of the file, or of the tree) starts from the state the
  removal left, and its result, error or not, is the result of the call. What the
  destination held does not survive, whether the copy fails or not: take two filesystems
  that differ at most in what is at or under the destination, which is to say that they
  stand in a relation under which \<open>LStat\<close> answers the same on the source, the removal
  of the destination, when it succeeds on both, leaves one and the same filesystem, and
  the closure that repairs the mtime of the destination's parent is the same. Then the
  two calls return the same handle, the same error and the same filesystem: nothing of
  what \<open>CopyPlacer\<close> returns or leaves behind depends on the old content of the
  destination. The second filesystem may be one in which nothing is at the destination:
  the placement ends as if the destination had been empty.
\<close>

theorem CopyPlacer_forgets_target:
  assumes valid: "LStat E w rootFs (CoerceRelative srcPath) = Inr st"
      "Type st = Type_File \<or> Type st = Type_Dir"
    and src: "\<forall>u v. R u v \<longrightarrow>
                LStat E v rootFs (CoerceRelative srcPath) = LStat E u rootFs (CoerceRelative srcPath)"
    and erase: "\<forall>u v u' v'. R u v \<longrightarrow>
                  os_RemoveAll E u (AbsolutePath_String dstPath) = (None, u') \<longrightarrow>
                  os_RemoveAll E v (AbsolutePath_String dstPath) = (None, v') \<longrightarrow> v' = u'"
    and repair: "\<forall>u v. R u v \<longrightarrow>
                   RepairMtime E v rootFs (CoerceRelative (AbsolutePath_Dir dstPath)) =
                   RepairMtime E u rootFs (CoerceRelative (AbsolutePath_Dir dstPath))"
  shows "(\<forall>err wl. os_RemoveAll E w (AbsolutePath_String dstPath) = (Some err, wl) \<longrightarrow>
            CopyPlacer E srcPath dstPath writable w =
              ((None, Some (Errorf ErrAssemblyInvalid
                  ''error clearing copy placement area: %s'' [ArgError err])),
               RepairMtime E w rootFs (CoerceRelative (AbsolutePath_Dir dstPath)) wl))
       \<and> (\<forall>wl. os_RemoveAll E w (AbsolutePath_String dstPath) = (None, wl) \<longrightarrow>
            (\<exists>r w2. (if Type st = Type_File then copyFile E srcPath dstPath wl
                       else copyDir E srcPath dstPath wl) = (r, w2)
                    \<and> CopyPlacer E srcPath dstPath writable w =
                        (r, RepairMtime E w rootFs (CoerceRelative (AbsolutePath_Dir dstPath)) w2)))
       \<and> (\<forall>v wl vl. R w v \<longrightarrow>
            os_RemoveAll E w (AbsolutePath_String dstPath) = (None, wl) \<longrightarrow>
            os_RemoveAll E v (AbsolutePath_String dstPath) = (None, vl) \<longrightarrow>
            CopyPlacer E srcPath dstPath writable v = CopyPlacer E srcPath dstPath writable w)"
proof (intro conjI allI impI)
  fix err wl
  assume "os_RemoveAll E w (AbsolutePath_String dstPath) = (Some err, wl)"
  with valid show "CopyPlacer E srcPath dstPath writable w =
              ((None, Some (Errorf ErrAssemblyInvalid
                  ''error clearing copy placement area: %s'' [ArgError err])),
               RepairMtime E w rootFs (CoerceRelative (AbsolutePath_Dir dstPath)) wl)"
    by (auto simp: CopyPlacer_def Let_def)
next
  fix wl
  assume rw: "os_RemoveAll E w (AbsolutePath_String dstPath) = (None, wl)"
  obtain r w2 where "(if Type st = Type_File then copyFile E srcPath dstPath wl
                      else copyDir E srcPath dstPath wl) = (r, w2)"
    by (cases "(if Type st = Type_File then copyFile E srcPath dstPath wl
                else copyDir E srcPath dstPath wl)") auto
  with valid rw
  show "\<exists>r w2. (if Type st = Type_File then copyFile E srcPath dstPath wl
                 else copyDir E srcPath dstPath wl) = (r, w2)
              \<and> CopyPlacer E srcPath dstPath writable w =
                  (r, RepairMtime E w rootFs (CoerceRelative (AbsolutePath_Dir dstPath)) w2)"
    by (auto simp: CopyPlacer_def Let_def split: if_splits)
next
  fix v wl vl
  assume rel: "R w v"
    and rw: "os_RemoveAll E w (AbsolutePath_String dstPath) = (None, wl)"
    and rv: "os_RemoveAll E v (AbsolutePath_String dstPath) = (None, vl)"
  have s: "LStat E v rootFs (CoerceRelative srcPath) = Inr st"
    using src rel valid(1) by simp
  have e: "vl = wl"
    using erase rel rw rv by blast
  have r: "RepairMtime E v rootFs (CoerceRelative (AbsolutePath_Dir dstPath)) =
           RepairMtime E w rootFs (CoerceRelative (AbsolutePath_Dir dstPath))"
    using repair rel by simp
  show "CopyPlacer E srcPath dstPath writable v = CopyPlacer E srcPath dstPath writable w"
    using valid s rw rv e r by (auto simp: CopyPlacer_def Let_def)
qed

text \<open>
  In the in-memory filesystem, two worlds with the same nodes outside a path have the same
  node at every key that is not under the path.
\<close>

lemma mem_map_of_outside:
  "\<not> mem_under s k \<Longrightarrow> map_of (filter (\<lambda>(k, x). \<not> mem_under s k) u) k = map_of u k"
  by (induction u) auto

lemma mem_same_outside_map_of:
  "mem_same_outside s u v \<Longrightarrow> \<not> mem_under s k \<Longrightarrow> map_of v k = map_of u k"
  using mem_map_of_outside [of s k u] mem_map_of_outside [of s k v]
  by (simp add: mem_same_outside_def)

text \<open>
  The theorem at work, the relation being: the same nodes outside \<open>/t\<close>. The example
  world has the file \<open>/t/old\<close> with content \<open>stale\<close>; the other world has \<open>/t/old\<close>
  with another content and owner, and a file \<open>/t/more/z\<close>. Copying the directory
  \<open>/cache/d\<close> onto \<open>/t\<close> succeeds; copying \<open>/cache/bad\<close> fails on a node that cannot
  be placed. Either way the two worlds end in the same state, and neither \<open>/t/old\<close> nor
  \<open>/t/more/z\<close> is in it. A third world is the example world without anything at \<open>/t\<close>:
  the placement onto the occupied \<open>/t\<close> ends as the placement onto the absent one does.
\<close>

theorem CopyPlacer_forgets_target_witness:
  "mem_same_outside ''/t'' mem_w0 mem_w0_other
   \<and> map_of mem_w0 [''t'', ''old''] = Some (mem_file [] 3 70, ''stale'')
   \<and> map_of mem_w0_other [''t'', ''old''] = Some ((mem_file [] 3 70)\<lparr>Uid := 4\<rparr>, ''changed'')
   \<and> map_of mem_w0_other [''t'', ''more'', ''z''] = Some (mem_file [] 9 80, ''other'')
   \<and> CopyPlacer mem_fs (AbsolutePath [''cache'', ''d'']) (AbsolutePath [''t'']) False
        mem_w0_other =
       CopyPlacer mem_fs (AbsolutePath [''cache'', ''d'']) (AbsolutePath [''t'']) False mem_w0
   \<and> CopyPlacer mem_fs (AbsolutePath [''cache'', ''bad'']) (AbsolutePath [''t'']) False
        mem_w0_other =
       CopyPlacer mem_fs (AbsolutePath [''cache'', ''bad'']) (AbsolutePath [''t'']) False mem_w0
   \<and> mem_same_outside ''/t'' mem_w0 (snd (mem_RemoveAll mem_w0 ''/t''))
   \<and> map_of (snd (mem_RemoveAll mem_w0 ''/t'')) [''t''] = None
   \<and> CopyPlacer mem_fs (AbsolutePath [''cache'', ''d'']) (AbsolutePath [''t'']) False
        (snd (mem_RemoveAll mem_w0 ''/t'')) =
       CopyPlacer mem_fs (AbsolutePath [''cache'', ''d'']) (AbsolutePath [''t'']) False mem_w0
   \<and> snd (fst (CopyPlacer mem_fs (AbsolutePath [''cache'', ''d'']) (AbsolutePath [''t''])
                  False mem_w0_other)) = None
   \<and> map_of (snd (CopyPlacer mem_fs (AbsolutePath [''cache'', ''d'']) (AbsolutePath [''t''])
                     False mem_w0_other)) [''t'', ''old''] = None
   \<and> map_of (snd (CopyPlacer mem_fs (AbsolutePath [''cache'', ''d'']) (AbsolutePath [''t''])
                     False mem_w0_other)) [''t'', ''more'', ''z''] = None
   \<and> map_option category
       (snd (fst (CopyPlacer mem_fs (AbsolutePath [''cache'', ''bad'']) (AbsolutePath [''t''])
                    False mem_w0_other))) = Some ErrIOUnknown
   \<and> map_of (snd (CopyPlacer mem_fs (AbsolutePath [''cache'', ''bad'']) (AbsolutePath [''t''])
                     False mem_w0_other)) [''t'', ''old''] = None
   \<and> map_of (snd (CopyPlacer mem_fs (AbsolutePath [''cache'', ''bad'']) (AbsolutePath [''t''])
                     False mem_w0_other)) [''t'', ''more'', ''z''] = None"
proof -
  let ?R = "mem_same_outside ''/t''"
  let ?dst = "AbsolutePath [''t'']"
  have s: "AbsolutePath_String ?dst = ''/t''"
    by (simp add: AbsolutePath_String_def)
  have rel: "?R mem_w0 mem_w0_other"
    by code_simp
  have out_d: "\<not> mem_under ''/t'' (mem_key rootFs (CoerceRelative (AbsolutePath [''cache'', ''d''])))"
    by code_simp
  have out_bad: "\<not> mem_under ''/t'' (mem_key rootFs (CoerceRelative (AbsolutePath [''cache'', ''bad''])))"
    by code_simp
  have out_parent: "\<not> mem_under ''/t'' (mem_key rootFs (CoerceRelative (AbsolutePath_Dir ?dst)))"
    by code_simp
  have src_d: "\<forall>u v. ?R u v \<longrightarrow>
                 LStat mem_fs v rootFs (CoerceRelative (AbsolutePath [''cache'', ''d''])) =
                 LStat mem_fs u rootFs (CoerceRelative (AbsolutePath [''cache'', ''d'']))"
    using mem_same_outside_map_of [OF _ out_d] by (simp add: mem_fs_def mem_LStat_def)
  have src_bad: "\<forall>u v. ?R u v \<longrightarrow>
                 LStat mem_fs v rootFs (CoerceRelative (AbsolutePath [''cache'', ''bad''])) =
                 LStat mem_fs u rootFs (CoerceRelative (AbsolutePath [''cache'', ''bad'']))"
    using mem_same_outside_map_of [OF _ out_bad] by (simp add: mem_fs_def mem_LStat_def)
  have erase: "\<forall>u v u' v'. ?R u v \<longrightarrow>
                 os_RemoveAll mem_fs u (AbsolutePath_String ?dst) = (None, u') \<longrightarrow>
                 os_RemoveAll mem_fs v (AbsolutePath_String ?dst) = (None, v') \<longrightarrow> v' = u'"
    unfolding s by (auto simp: mem_fs_def mem_RemoveAll_def mem_same_outside_def)
  have repair: "\<forall>u v. ?R u v \<longrightarrow>
                  RepairMtime mem_fs v rootFs (CoerceRelative (AbsolutePath_Dir ?dst)) =
                  RepairMtime mem_fs u rootFs (CoerceRelative (AbsolutePath_Dir ?dst))"
    using mem_same_outside_map_of [OF _ out_parent] by (simp add: mem_fs_def mem_RepairMtime_def)
  have st_d: "LStat mem_fs mem_w0 rootFs (CoerceRelative (AbsolutePath [''cache'', ''d''])) =
                Inr ((mem_dir 110)\<lparr>Name := [''cache'', ''d'']\<rparr>)"
    by code_simp
  have st_bad: "LStat mem_fs mem_w0 rootFs (CoerceRelative (AbsolutePath [''cache'', ''bad''])) =
                Inr ((mem_dir 140)\<lparr>Name := [''cache'', ''bad'']\<rparr>)"
    by code_simp
  have ty: "Type ((mem_dir t)\<lparr>Name := n\<rparr>) = Type_File \<or> Type ((mem_dir t)\<lparr>Name := n\<rparr>) = Type_Dir"
    for t n
    by (simp add: mem_dir_def)
  have rw: "os_RemoveAll mem_fs mem_w0 (AbsolutePath_String ?dst) =
              (None, snd (os_RemoveAll mem_fs mem_w0 (AbsolutePath_String ?dst)))"
    by (simp add: mem_fs_def mem_RemoveAll_def)
  have rv: "os_RemoveAll mem_fs mem_w0_other (AbsolutePath_String ?dst) =
              (None, snd (os_RemoveAll mem_fs mem_w0_other (AbsolutePath_String ?dst)))"
    by (simp add: mem_fs_def mem_RemoveAll_def)
  have eq_d: "CopyPlacer mem_fs (AbsolutePath [''cache'', ''d'']) ?dst False mem_w0_other =
              CopyPlacer mem_fs (AbsolutePath [''cache'', ''d'']) ?dst False mem_w0"
    using CopyPlacer_forgets_target [OF st_d ty src_d erase repair, of False] rel rw rv
    by blast
  have rel_bare: "?R mem_w0 (snd (mem_RemoveAll mem_w0 ''/t''))"
    by code_simp
  have bare: "map_of (snd (mem_RemoveAll mem_w0 ''/t'')) [''t''] = None"
    by code_simp
  have rb: "os_RemoveAll mem_fs (snd (mem_RemoveAll mem_w0 ''/t'')) (AbsolutePath_String ?dst) =
              (None, snd (os_RemoveAll mem_fs (snd (mem_RemoveAll mem_w0 ''/t''))
                            (AbsolutePath_String ?dst)))"
    by (simp add: mem_fs_def mem_RemoveAll_def)
  have eq_bare: "CopyPlacer mem_fs (AbsolutePath [''cache'', ''d'']) ?dst False
                   (snd (mem_RemoveAll mem_w0 ''/t'')) =
                 CopyPlacer mem_fs (AbsolutePath [''cache'', ''d'']) ?dst False mem_w0"
    using CopyPlacer_forgets_target [OF st_d ty src_d erase repair, of False] rel_bare rw rb
    by blast
  have eq_bad: "CopyPlacer mem_fs (AbsolutePath [''cache'', ''bad'']) ?dst False mem_w0_other =
              CopyPlacer mem_fs (AbsolutePath [''cache'', ''bad'']) ?dst False mem_w0"
    using CopyPlacer_forgets_target [OF st_bad ty src_bad erase repair, of False] rel rw rv
    by blast
  have before: "map_of mem_w0 [''t'', ''old''] = Some (mem_file [] 3 70, ''stale'')
     \<and> map_of mem_w0_other [''t'', ''old''] = Some ((mem_file [] 3 70)\<lparr>Uid := 4\<rparr>, ''changed'')
     \<and> map_of mem_w0_other [''t'', ''more'', ''z''] = Some (mem_file [] 9 80, ''other'')"
    by code_simp
  have after_d: "snd (fst (CopyPlacer mem_fs (AbsolutePath [''cache'', ''d'']) ?dst False mem_w0)) = None
     \<and> map_of (snd (CopyPlacer mem_fs (AbsolutePath [''cache'', ''d'']) ?dst False mem_w0))
         [''t'', ''old''] = None
     \<and> map_of (snd (CopyPlacer mem_fs (AbsolutePath [''cache'', ''d'']) ?dst False mem_w0))
         [''t'', ''more'', ''z''] = None"
    by code_simp
  have after_bad: "map_option category
         (snd (fst (CopyPlacer mem_fs (AbsolutePath [''cache'', ''bad'']) ?dst False mem_w0))) =
       Some ErrIOUnknown
     \<and> map_of (snd (CopyPlacer mem_fs (AbsolutePath [''cache'', ''bad'']) ?dst False mem_w0))
         [''t'', ''old''] = None
     \<and> map_of (snd (CopyPlacer mem_fs (AbsolutePath [''cache'', ''bad'']) ?dst False mem_w0))
         [''t'', ''more'', ''z''] = None"
    by code_simp
  from rel before eq_d eq_bad rel_bare bare eq_bare after_d after_bad show ?thesis
    by simp
qed

section \<open>Unpacking a tar stream: what was proved\<close>

subsection \<open>Helper facts\<close>

lemma RequireErrorHasCategory_None [simp]:
  "RequireErrorHasCategory reject None = None"
  by (simp add: RequireErrorHasCategory_def)

lemma RequireErrorHasCategory_eq_None [simp]:
  "(RequireErrorHasCategory reject e = None) = (e = None)"
  by (simp add: RequireErrorHasCategory_def split: option.splits)

lemma RequireErrorHasCategory_Errorf [simp]:
  "is_rio_category cat \<Longrightarrow>
     RequireErrorHasCategory reject (Some (Errorf cat fmt as)) = Some (Errorf cat fmt as)"
  by (simp add: RequireErrorHasCategory_def Errorf_def)

lemma inferParents_Nil [simp]:
  "inferParents E T afs [] w bucket = (None, w, bucket)"
  by (simp add: inferParents.simps)

text \<open>One turn of the inner loop, by what \<open>LStat\<close> reports.\<close>

lemma inferParents_step:
  "parent \<noteq> [] \<Longrightarrow>
   inferParents E T afs parent w b =
     (if \<not> reportsMissing E afs w parent
      then inferParents E T afs (RelPath_Dir parent) w b
      else (case PlaceFile E w afs (fst (conjured T parent)) None False of
              (Some err, w') \<Rightarrow>
                (Some (Errorf ErrInoperablePath ''error while unpacking: %s'' [ArgError err]),
                 w', b)
            | (None, w') \<Rightarrow>
                inferParents E T afs (RelPath_Dir parent) w' (b @ [conjured T parent])))"
  by (subst inferParents.simps)
     (auto simp: reportsMissing_def conjured_def Let_def
           split: sum.splits prod.splits option.splits)

text \<open>The loop over a stream cut in two: the second part runs if the first ends well.\<close>

lemma unpackEntries_append:
  "unpackEntries E T ctx afs filt i (pre @ rest) w b =
     (case unpackEntries E T ctx afs filt i pre w b of
        (Some e, w1, b1) \<Rightarrow> (Some e, w1, b1)
      | (None, w1, b1) \<Rightarrow> unpackEntries E T ctx afs filt (i + length pre) rest w1 b1)"
proof (induction pre arbitrary: i w b)
  case Nil
  then show ?case by simp
next
  case (Cons item pre)
  show ?case
  proof (cases item)
    case (Corrupt msg)
    then show ?thesis by simp
  next
    case (Entry thdr body)
    then show ?thesis
      by (simp add: Cons.IH split: prod.splits option.splits)
  qed
qed


text \<open>An error of the loop is the error of \<open>unpackTar\<close>, with the zero Ware ID.\<close>

lemma unpackTar_entries_error:
  "Decompress T reader = Inr reader2 \<Longrightarrow>
   unpackEntries E T ctx afs filt 0 (tar_NewReader T reader2) w [] = (Some e, w1, b1) \<Longrightarrow>
   unpackTar E T ctx afs filt reader w =
     ((WareID_zero, RequireErrorHasCategory (CategoryFilterRejection T) (Some e)), w1)"
  by (simp add: unpackTar_def)

subsection \<open>Names that leave the base directory\<close>

text \<open>
  C4. Let the stream hold an entry whose name, as the header conversion normalised it,
  begins with two dots. Then \<open>unpackTar\<close> returns an error, and the filesystem it leaves
  is the one the entries before that entry left: nothing is written for that entry or
  for any later one, and the passes after the loop do not run. When the loop comes to
  the entry, that is when the entries before it went well and the context is not
  cancelled there, the error is the \<open>ErrWareCorrupt\<close> of line 194.
\<close>

theorem unpackTar_rejects_breakout:
  assumes "Decompress T reader = Inr reader2"
    and "tar_NewReader T reader2 = pre @ Entry thdr body # rest"
    and "TarHdrToMetadata T thdr = Inr fmeta"
    and "HasPrefix (RelPath_String (Name fmeta)) ''..''"
  shows "snd (unpackTar E T ctx afs filt reader w) =
           fst (snd (unpackEntries E T ctx afs filt 0 pre w []))
       \<and> snd (fst (unpackTar E T ctx afs filt reader w)) \<noteq> None
       \<and> (fst (unpackEntries E T ctx afs filt 0 pre w []) = None \<longrightarrow> \<not> ctx (length pre) \<longrightarrow>
            fst (unpackTar E T ctx afs filt reader w) =
              (WareID_zero,
               Some (Errorf ErrWareCorrupt
                 ''corrupt tar: paths that use '../' to leave the base dir are invalid'' [])))"
proof (cases "unpackEntries E T ctx afs filt 0 pre w []")
  case (fields e w1 b1)
  show ?thesis
  proof (cases e)
    case (Some err)
    with fields have "unpackEntries E T ctx afs filt 0 (tar_NewReader T reader2) w [] =
        (Some err, w1, b1)"
      by (simp add: assms(2) unpackEntries_append)
    from unpackTar_entries_error [OF assms(1) this] fields Some show ?thesis
      by simp
  next
    case None
    show ?thesis
    proof (cases "ctx (length pre)")
      case True
      with fields None have "unpackEntries E T ctx afs filt 0 (tar_NewReader T reader2) w [] =
          (Some (Errorf ErrCancelled ''cancelled'' []), w1, b1)"
        by (simp add: assms(2) unpackEntries_append)
      from unpackTar_entries_error [OF assms(1) this] fields None True show ?thesis
        by (simp add: is_rio_category_def)
    next
      case False
      with fields None assms(3,4)
      have "unpackEntries E T ctx afs filt 0 (tar_NewReader T reader2) w [] =
          (Some (Errorf ErrWareCorrupt
             ''corrupt tar: paths that use '../' to leave the base dir are invalid'' []), w1, b1)"
        by (simp add: assms(2) unpackEntries_append placeEntry_def)
      from unpackTar_entries_error [OF assms(1) this] fields None False show ?thesis
        by (simp add: is_rio_category_def)
    qed
  qed
qed

text \<open>
  The theorem at work on the archive \<open>evil\<close>: a harmless file, then
  \<open>../etc/passwd\<close>, then another file. The first file is placed; neither the second nor
  the third is.
\<close>

theorem unpackTar_rejects_breakout_witness:
  "Decompress (mem_tar mem_blobs) ''evil'' = Inr ''evil''
   \<and> tar_NewReader (mem_tar mem_blobs) ''evil'' =
       [Entry (mem_file [''ok''] 7 100) ''fine'']
       @ Entry (mem_file [''..'', ''etc'', ''passwd''] 0 100) ''root::0:0''
       # [Entry (mem_file [''later''] 7 100) ''never'']
   \<and> TarHdrToMetadata (mem_tar mem_blobs) (mem_file [''..'', ''etc'', ''passwd''] 0 100) =
       Inr (mem_file [''..'', ''etc'', ''passwd''] 0 100)
   \<and> HasPrefix (RelPath_String (Name (mem_file [''..'', ''etc'', ''passwd''] 0 100))) ''..''
   \<and> fst (unpackTar mem_fs (mem_tar mem_blobs) (\<lambda>i. False) (AbsolutePath [''t'']) mem_keep
            ''evil'' mem_w0) =
       (WareID_zero,
        Some (Errorf ErrWareCorrupt
          ''corrupt tar: paths that use '../' to leave the base dir are invalid'' []))
   \<and> map_of (snd (unpackTar mem_fs (mem_tar mem_blobs) (\<lambda>i. False) (AbsolutePath [''t''])
                     mem_keep ''evil'' mem_w0)) [''t'', ''ok''] \<noteq> None
   \<and> map_of (snd (unpackTar mem_fs (mem_tar mem_blobs) (\<lambda>i. False) (AbsolutePath [''t''])
                     mem_keep ''evil'' mem_w0)) [''etc'', ''passwd''] = None
   \<and> map_of (snd (unpackTar mem_fs (mem_tar mem_blobs) (\<lambda>i. False) (AbsolutePath [''t''])
                     mem_keep ''evil'' mem_w0)) [''t'', ''later''] = None"
proof -
  let ?pre = "[Entry (mem_file [''ok''] 7 100) ''fine'']"
  let ?m = "mem_file [''..'', ''etc'', ''passwd''] 0 100"
  have h1: "Decompress (mem_tar mem_blobs) ''evil'' = Inr ''evil''"
    by code_simp
  have h2: "tar_NewReader (mem_tar mem_blobs) ''evil'' =
              ?pre @ Entry ?m ''root::0:0'' # [Entry (mem_file [''later''] 7 100) ''never'']"
    by code_simp
  have h3: "TarHdrToMetadata (mem_tar mem_blobs) ?m = Inr ?m"
    by code_simp
  have h4: "HasPrefix (RelPath_String (Name ?m)) ''..''"
    by code_simp
  have e1: "fst (unpackEntries mem_fs (mem_tar mem_blobs) (\<lambda>i. False) (AbsolutePath [''t''])
                   mem_keep 0 ?pre mem_w0 []) = None"
    by code_simp
  have e2: "map_of (fst (snd (unpackEntries mem_fs (mem_tar mem_blobs) (\<lambda>i. False)
                   (AbsolutePath [''t'']) mem_keep 0 ?pre mem_w0 []))) [''t'', ''ok''] \<noteq> None"
    by code_simp
  have e3: "map_of (fst (snd (unpackEntries mem_fs (mem_tar mem_blobs) (\<lambda>i. False)
                   (AbsolutePath [''t'']) mem_keep 0 ?pre mem_w0 []))) [''etc'', ''passwd''] = None"
    by code_simp
  have e4: "map_of (fst (snd (unpackEntries mem_fs (mem_tar mem_blobs) (\<lambda>i. False)
                   (AbsolutePath [''t'']) mem_keep 0 ?pre mem_w0 []))) [''t'', ''later''] = None"
    by code_simp
  from unpackTar_rejects_breakout [OF h1 h2 h3 h4, of mem_fs "\<lambda>i. False" "AbsolutePath [''t'']"
      mem_keep mem_w0] e1 e2 e3 e4 h1 h2 h3 h4
  show ?thesis
    by simp
qed

subsection \<open>Cancellation\<close>




subsection \<open>Conjured parent directories\<close>

lemma ancestors_Nil [simp]:
  "ancestors [] = []"
  by (simp add: ancestors_def)

lemma ancestors_Cons:
  assumes "p \<noteq> []"
  shows "ancestors p = p # ancestors (RelPath_Dir p)"
proof -
  obtain n where n: "length p = Suc n"
    using assms by (cases p) auto
  have "map (\<lambda>k. take k p) (rev [1 ..< Suc n]) =
        map (\<lambda>k. take k (butlast p)) (rev [1 ..< Suc n])"
    using n by (intro map_cong refl) (auto simp: butlast_conv_take min_def)
  then show ?thesis
    using n by (simp add: ancestors_def RelPath_Dir_def)
qed

lemma ancestors_length:
  "q \<in> set (ancestors p) \<Longrightarrow> length q \<le> length p"
  by (auto simp: ancestors_def)

lemma ancestors_Dir_differ:
  "p \<noteq> [] \<Longrightarrow> q \<in> set (ancestors (RelPath_Dir p)) \<Longrightarrow> q \<noteq> p"
  using ancestors_length [of q "RelPath_Dir p"]
  by (cases p) (auto simp: RelPath_Dir_def split: if_splits)

text \<open>Subsequences, and the filesystem after a list of directories was conjured.\<close>

lemma isSubsequence_set:
  "isSubsequence xs ys \<Longrightarrow> set xs \<subseteq> set ys"
  by (induction xs ys rule: isSubsequence.induct) (auto split: if_splits)

lemma isSubsequence_skip:
  "isSubsequence xs ys \<Longrightarrow> y \<notin> set ys \<Longrightarrow> isSubsequence xs (y # ys)"
  using isSubsequence_set [of xs ys] by (cases xs) auto

lemma conjureAll_Nil [simp]:
  "conjureAll E T afs w [] = w"
  by (simp add: conjureAll_def)

lemma conjureAll_Cons [simp]:
  "conjureAll E T afs w (q # qs) =
     conjureAll E T afs (snd (PlaceFile E w afs (fst (conjured T q)) None False)) qs"
  by (simp add: conjureAll_def)

lemma conjureAll_snoc:
  "conjureAll E T afs w (qs @ [q]) =
     snd (PlaceFile E (conjureAll E T afs w qs) afs (fst (conjured T q)) None False)"
  by (simp add: conjureAll_def)

lemma conjured_inject:
  "conjured T p = conjured T q \<Longrightarrow> p = q"
  by (drule arg_cong [where f = "\<lambda>r. Name (fst r)"]) (simp add: conjured_def)

text \<open>
  C5, as the code has it. For every entry, the inner loop is run on the parent of the
  entry's name; it goes from there up to below the root. Whatever its outcome, the records it has added to the bucket are those of the
  directories it has conjured, in the order of the walk. Each of them is an ancestor of
  the entry; \<open>LStat\<close> reported it missing when the loop reached it, that is, in the
  filesystem the directories conjured before it had left; it was placed with the metadata
  of \<open>DefaultDirMetadata()\<close> under the ancestor's name, and is recorded with that
  metadata and without content hash. When the loop ends without error, the filesystem is
  the one these placements left, and an ancestor that was not conjured is one that
  \<open>LStat\<close> did not report missing when the loop reached it. The filters are no argument
  of the loop: the conjured metadata does not depend on them.
\<close>

theorem inferParents_conjures_defaults:
  assumes run: "inferParents E T afs parent w bucket = (e, w', bucket')"
  shows "\<exists>qs. bucket' = bucket @ map (conjured T) qs
           \<and> isSubsequence qs (ancestors parent)
           \<and> (\<forall>xs q ys. qs = xs @ q # ys \<longrightarrow>
                 reportsMissing E afs (conjureAll E T afs w xs) q
                 \<and> PlaceFile E (conjureAll E T afs w xs) afs (fst (conjured T q)) None False =
                     (None, conjureAll E T afs w (xs @ [q])))
           \<and> (e = None \<longrightarrow>
                 w' = conjureAll E T afs w qs
                 \<and> (\<forall>xs a ys. ancestors parent = xs @ a # ys \<longrightarrow> a \<notin> set qs \<longrightarrow>
                       \<not> reportsMissing E afs
                            (conjureAll E T afs w (filter (\<lambda>q. q \<in> set qs) xs)) a))"
  using run
proof (induction "length parent" arbitrary: parent w bucket rule: less_induct)
  case less
  note run = less.prems
  show ?case
  proof (cases "parent = []")
    case True
    with run have "e = None" "w' = w" "bucket' = bucket"
      by simp_all
    then show ?thesis
      using True by (intro exI [of _ "[]"]) simp
  next
    case False
    let ?rest = "ancestors (RelPath_Dir parent)"
    have anc: "ancestors parent = parent # ?rest"
      using False by (rule ancestors_Cons)
    have fresh: "parent \<notin> set ?rest"
      using ancestors_Dir_differ [OF False] by blast
    have shorter: "length (RelPath_Dir parent) < length parent"
      using False by (simp add: RelPath_Dir_def)
    show ?thesis
    proof (cases "reportsMissing E afs w parent")
      case no: False
      with run False have "inferParents E T afs (RelPath_Dir parent) w bucket = (e, w', bucket')"
        by (simp add: inferParents_step)
      from less.hyps [OF shorter this] obtain qs where
        b: "bucket' = bucket @ map (conjured T) qs"
        and s: "isSubsequence qs ?rest"
        and d: "\<forall>xs q ys. qs = xs @ q # ys \<longrightarrow>
                 reportsMissing E afs (conjureAll E T afs w xs) q
                 \<and> PlaceFile E (conjureAll E T afs w xs) afs (fst (conjured T q)) None False =
                     (None, conjureAll E T afs w (xs @ [q]))"
        and c: "e = None \<longrightarrow>
                 w' = conjureAll E T afs w qs
                 \<and> (\<forall>xs a ys. ?rest = xs @ a # ys \<longrightarrow> a \<notin> set qs \<longrightarrow>
                       \<not> reportsMissing E afs
                            (conjureAll E T afs w (filter (\<lambda>q. q \<in> set qs) xs)) a)"
        by blast
      have notin: "parent \<notin> set qs"
        using isSubsequence_set [OF s] fresh by blast
      have s': "isSubsequence qs (ancestors parent)"
        unfolding anc using s fresh by (rule isSubsequence_skip)
      have c': "\<not> reportsMissing E afs (conjureAll E T afs w (filter (\<lambda>q. q \<in> set qs) xs)) a"
        if "e = None" "ancestors parent = xs @ a # ys" "a \<notin> set qs" for xs a ys
      proof (cases xs)
        case Nil
        with that(2) anc have "a = parent" by simp
        with no Nil show ?thesis by simp
      next
        case (Cons x xs')
        with that(2) anc have "x = parent" "?rest = xs' @ a # ys" by auto
        with c that(1,3) notin Cons show ?thesis by simp
      qed
      from b s' d c c' show ?thesis
        by (intro exI [of _ qs]) blast
    next
      case yes: True
      let ?m = "fst (conjured T parent)"
      obtain e1 w1 where place: "PlaceFile E w afs ?m None False = (e1, w1)"
        by (cases "PlaceFile E w afs ?m None False") auto
      show ?thesis
      proof (cases e1)
        case (Some err)
        with run False yes place have "e \<noteq> None" "bucket' = bucket"
          by (auto simp: inferParents_step)
        then show ?thesis
          by (intro exI [of _ "[]"]) auto
      next
        case None
        with run False yes place
        have "inferParents E T afs (RelPath_Dir parent) w1 (bucket @ [conjured T parent]) =
                (e, w', bucket')"
          by (simp add: inferParents_step)
        from less.hyps [OF shorter this] obtain qs where
          b: "bucket' = (bucket @ [conjured T parent]) @ map (conjured T) qs"
          and s: "isSubsequence qs ?rest"
          and d: "\<forall>xs q ys. qs = xs @ q # ys \<longrightarrow>
                   reportsMissing E afs (conjureAll E T afs w1 xs) q
                   \<and> PlaceFile E (conjureAll E T afs w1 xs) afs (fst (conjured T q)) None False =
                       (None, conjureAll E T afs w1 (xs @ [q]))"
          and c: "e = None \<longrightarrow>
                   w' = conjureAll E T afs w1 qs
                   \<and> (\<forall>xs a ys. ?rest = xs @ a # ys \<longrightarrow> a \<notin> set qs \<longrightarrow>
                         \<not> reportsMissing E afs
                              (conjureAll E T afs w1 (filter (\<lambda>q. q \<in> set qs) xs)) a)"
          by blast
        have w1: "snd (PlaceFile E w afs ?m None False) = w1"
          using place by simp
        have notin: "parent \<notin> set qs"
          using isSubsequence_set [OF s] fresh by blast
        have b': "bucket' = bucket @ map (conjured T) (parent # qs)"
          using b by simp
        have s': "isSubsequence (parent # qs) (ancestors parent)"
          unfolding anc using s by simp
        have d': "reportsMissing E afs (conjureAll E T afs w xs) q
                 \<and> PlaceFile E (conjureAll E T afs w xs) afs (fst (conjured T q)) None False =
                     (None, conjureAll E T afs w (xs @ [q]))"
          if "parent # qs = xs @ q # ys" for xs q ys
        proof (cases xs)
          case Nil
          with that have "q = parent" by simp
          with yes place None Nil show ?thesis by simp
        next
          case (Cons x xs')
          with that have "x = parent" "qs = xs' @ q # ys" by auto
          with d Cons w1 show ?thesis by simp
        qed
        have c1: "w' = conjureAll E T afs w (parent # qs)" if "e = None"
          using c that w1 by simp
        have c2: "\<not> reportsMissing E afs
                      (conjureAll E T afs w (filter (\<lambda>q. q \<in> set (parent # qs)) xs)) a"
          if "e = None" "ancestors parent = xs @ a # ys" "a \<notin> set (parent # qs)" for xs a ys
        proof (cases xs)
          case Nil
          with that(2,3) anc show ?thesis by simp
        next
          case (Cons x xs')
          with that(2) anc have x: "x = parent" and rest: "?rest = xs' @ a # ys" by auto
          have "set xs' \<subseteq> set ?rest"
            using rest by auto
          with fresh have "filter (\<lambda>q. q \<in> set (parent # qs)) xs' = filter (\<lambda>q. q \<in> set qs) xs'"
            by (intro filter_cong refl) auto
          with c that(1,3) rest Cons x w1 show ?thesis by simp
        qed
        from b' s' d' c1 c2 show ?thesis
          by (intro exI [of _ "parent # qs"]) blast
      qed
    qed
  qed
qed

text \<open>
  The theorem at work: the target already has the directory \<open>a\<close>, and an entry
  \<open>a/b/c\<close> comes. Of its two ancestors \<open>a/b\<close> is reported missing and is conjured,
  with the default owner 1000 and the default mtime of the instance; \<open>a\<close> is not
  reported missing and is left alone.
\<close>

theorem inferParents_conjures_defaults_witness:
  "inferParents mem_fs (mem_tar mem_blobs) (AbsolutePath [''t'']) [''a'', ''b'']
       (([''t'', ''a''], mem_dir 5, []) # mem_w0) [] =
     (None,
      conjureAll mem_fs (mem_tar mem_blobs) (AbsolutePath [''t''])
        (([''t'', ''a''], mem_dir 5, []) # mem_w0) [[''a'', ''b'']],
      [conjured (mem_tar mem_blobs) [''a'', ''b'']])
   \<and> reportsMissing mem_fs (AbsolutePath [''t'']) (([''t'', ''a''], mem_dir 5, []) # mem_w0)
        [''a'', ''b'']
   \<and> PlaceFile mem_fs (([''t'', ''a''], mem_dir 5, []) # mem_w0) (AbsolutePath [''t''])
        (fst (conjured (mem_tar mem_blobs) [''a'', ''b''])) None False =
       (None, conjureAll mem_fs (mem_tar mem_blobs) (AbsolutePath [''t''])
                (([''t'', ''a''], mem_dir 5, []) # mem_w0) [[''a'', ''b'']])
   \<and> \<not> reportsMissing mem_fs (AbsolutePath [''t''])
          (conjureAll mem_fs (mem_tar mem_blobs) (AbsolutePath [''t''])
             (([''t'', ''a''], mem_dir 5, []) # mem_w0) [[''a'', ''b'']]) [''a'']
   \<and> fst (conjured (mem_tar mem_blobs) [''a'', ''b'']) =
       \<lparr>Name = [''a'', ''b''], Type = Type_Dir, Perms = 493, Uid = 1000, Gid = 1000, Size = 0,
        Linkname = [], Devmajor = 0, Devminor = 0, Mtime = 1262304000\<rparr>"
proof -
  let ?w = "([''t'', ''a''], mem_dir 5, []) # mem_w0"
  let ?T = "mem_tar mem_blobs"
  let ?afs = "AbsolutePath [''t'']"
  have run: "inferParents mem_fs ?T ?afs [''a'', ''b''] ?w [] =
     (None, conjureAll mem_fs ?T ?afs ?w [[''a'', ''b'']], [conjured ?T [''a'', ''b'']])"
    by code_simp
  have meta: "fst (conjured ?T [''a'', ''b'']) =
       \<lparr>Name = [''a'', ''b''], Type = Type_Dir, Perms = 493, Uid = 1000, Gid = 1000, Size = 0,
        Linkname = [], Devmajor = 0, Devminor = 0, Mtime = 1262304000\<rparr>"
    by code_simp
  have anc: "ancestors [''a'', ''b''] = [[''a'', ''b'']] @ [''a''] # []"
    by code_simp
  from inferParents_conjures_defaults [OF run] obtain qs where
    b: "[conjured ?T [''a'', ''b'']] = [] @ map (conjured ?T) qs"
    and d: "\<forall>xs q ys. qs = xs @ q # ys \<longrightarrow>
              reportsMissing mem_fs ?afs (conjureAll mem_fs ?T ?afs ?w xs) q
              \<and> PlaceFile mem_fs (conjureAll mem_fs ?T ?afs ?w xs) ?afs
                  (fst (conjured ?T q)) None False =
                  (None, conjureAll mem_fs ?T ?afs ?w (xs @ [q]))"
    and c: "\<forall>xs a ys. ancestors [''a'', ''b''] = xs @ a # ys \<longrightarrow> a \<notin> set qs \<longrightarrow>
              \<not> reportsMissing mem_fs ?afs
                   (conjureAll mem_fs ?T ?afs ?w (filter (\<lambda>q. q \<in> set qs) xs)) a"
    by blast
  have qs: "qs = [[''a'', ''b'']]"
    using b conjured_inject [of ?T "[''a'', ''b'']"] by (cases qs) auto
  from d [rule_format, of "[]" "[''a'', ''b'']" "[]"] qs
  have first: "reportsMissing mem_fs ?afs ?w [''a'', ''b'']
     \<and> PlaceFile mem_fs ?w ?afs (fst (conjured ?T [''a'', ''b''])) None False =
         (None, conjureAll mem_fs ?T ?afs ?w [[''a'', ''b'']])"
    by simp
  from c [rule_format, OF anc] qs
  have "\<not> reportsMissing mem_fs ?afs (conjureAll mem_fs ?T ?afs ?w [[''a'', ''b'']]) [''a'']"
    by simp
  with run meta first show ?thesis
    by simp
qed

text \<open>
  C5 as the specification states it fails. The filters force owner 0, group 0 and
  mtime 5, and the entry \<open>a/b\<close> is recorded with them; the conjured parent \<open>a\<close> is
  recorded with the defaults, and is the same record as when the filters keep everything.
\<close>

theorem inferParents_filter_counterexample:
  "snd (snd (unpackEntries mem_fs (mem_tar mem_blobs) (\<lambda>i. False) (AbsolutePath [''t''])
               mem_force 0 [Entry (mem_file [''a'', ''b''] 7 100) ''hello''] mem_w0 [])) =
     [(mem_DefaultDirMetadata\<lparr>Name := [''a'']\<rparr>, None),
      (mem_file [''a'', ''b''] 0 5, Some ''hello'')]
   \<and> filt_Uid mem_force = Some 0
   \<and> filt_Mtime mem_force = Some 5
   \<and> Uid (mem_DefaultDirMetadata\<lparr>Name := [''a'']\<rparr>) = 1000
   \<and> Mtime (mem_DefaultDirMetadata\<lparr>Name := [''a'']\<rparr>) = 1262304000
   \<and> hd (snd (snd (unpackEntries mem_fs (mem_tar mem_blobs) (\<lambda>i. False) (AbsolutePath [''t''])
               mem_keep 0 [Entry (mem_file [''a'', ''b''] 7 100) ''hello''] mem_w0 []))) =
       (mem_DefaultDirMetadata\<lparr>Name := [''a'']\<rparr>, None)"
  by code_simp

subsection \<open>The pass that restores directory mtimes\<close>

text \<open>
  What the pass needs of the filesystem: setting the times of a path gives the path that
  mtime and leaves the mtime of every other path alone.
\<close>

lemma repaveDirs_keeps:
  assumes setT: "\<forall>w p t a w1. SetTimesNano E w afs p t a = (None, w1) \<longrightarrow>
                   mtimeOnDisk E afs w1 p = Some t"
    and setF: "\<forall>w p t a w1 q. SetTimesNano E w afs p t a = (None, w1) \<longrightarrow> q \<noteq> p \<longrightarrow>
                   mtimeOnDisk E afs w1 q = mtimeOnDisk E afs w q"
  shows "repaveDirs E afs rs w = (None, w') \<Longrightarrow> mtimeOnDisk E afs w p = Some t \<Longrightarrow>
         (\<And>r. r \<in> set rs \<Longrightarrow> Type (fst r) = Type_Dir \<Longrightarrow> Name (fst r) = p \<Longrightarrow>
                Mtime (fst r) = t) \<Longrightarrow>
         mtimeOnDisk E afs w' p = Some t"
proof (induction rs arbitrary: w)
  case Nil
  then show ?case by simp
next
  case (Cons r rs)
  show ?case
  proof (cases "Type (fst r) = Type_Dir")
    case False
    with Cons.prems(1) have "repaveDirs E afs rs w = (None, w')"
      by simp
    from Cons.IH [OF this Cons.prems(2)] Cons.prems(3) show ?thesis
      by simp
  next
    case True
    obtain e w1 where step:
      "SetTimesNano E w afs (Name (fst r)) (Mtime (fst r)) (DefaultAtime E) = (e, w1)"
      by (cases "SetTimesNano E w afs (Name (fst r)) (Mtime (fst r)) (DefaultAtime E)") auto
    with True Cons.prems(1) have e: "e = None" and rest: "repaveDirs E afs rs w1 = (None, w')"
      by (auto split: option.splits)
    have "mtimeOnDisk E afs w1 p = Some t"
    proof (cases "Name (fst r) = p")
      case same: True
      with Cons.prems(3) [of r] True have "Mtime (fst r) = t"
        by simp
      with setT step [unfolded e] same show ?thesis
        by simp
    next
      case False
      then have "p \<noteq> Name (fst r)"
        by blast
      with setF step [unfolded e] Cons.prems(2) show ?thesis
        by simp
    qed
    from Cons.IH [OF rest this] Cons.prems(3) show ?thesis
      by simp
  qed
qed

lemma repaveDirs_sets:
  assumes setT: "\<forall>w p t a w1. SetTimesNano E w afs p t a = (None, w1) \<longrightarrow>
                   mtimeOnDisk E afs w1 p = Some t"
    and setF: "\<forall>w p t a w1 q. SetTimesNano E w afs p t a = (None, w1) \<longrightarrow> q \<noteq> p \<longrightarrow>
                   mtimeOnDisk E afs w1 q = mtimeOnDisk E afs w q"
  shows "repaveDirs E afs rs w = (None, w') \<Longrightarrow> distinct (map (\<lambda>r. Name (fst r)) rs) \<Longrightarrow>
         r \<in> set rs \<Longrightarrow> Type (fst r) = Type_Dir \<Longrightarrow>
         mtimeOnDisk E afs w' (Name (fst r)) = Some (Mtime (fst r))"
proof (induction rs arbitrary: w)
  case Nil
  then show ?case by simp
next
  case (Cons x rs)
  have dist: "distinct (map (\<lambda>r. Name (fst r)) rs)"
    using Cons.prems(2) by simp
  show ?case
  proof (cases "r = x")
    case True
    obtain e w1 where step:
      "SetTimesNano E w afs (Name (fst r)) (Mtime (fst r)) (DefaultAtime E) = (e, w1)"
      by (cases "SetTimesNano E w afs (Name (fst r)) (Mtime (fst r)) (DefaultAtime E)") auto
    with True Cons.prems(1,4) have e: "e = None" and rest: "repaveDirs E afs rs w1 = (None, w')"
      by (auto split: option.splits)
    have now: "mtimeOnDisk E afs w1 (Name (fst r)) = Some (Mtime (fst r))"
      using setT step [unfolded e] by blast
    have "Name (fst r) \<notin> (\<lambda>r. Name (fst r)) ` set rs"
      using Cons.prems(2) True by simp
    then have "\<And>y. y \<in> set rs \<Longrightarrow> Name (fst y) \<noteq> Name (fst r)"
      by (metis imageI)
    then show ?thesis
      using repaveDirs_keeps [OF setT setF rest now] by blast
  next
    case False
    with Cons.prems(3) have r: "r \<in> set rs"
      by simp
    show ?thesis
    proof (cases "Type (fst x) = Type_Dir")
      case notdir: False
      with Cons.prems(1) have "repaveDirs E afs rs w = (None, w')"
        by simp
      from Cons.IH [OF this dist r Cons.prems(4)] show ?thesis .
    next
      case True
      obtain e w1 where step:
        "SetTimesNano E w afs (Name (fst x)) (Mtime (fst x)) (DefaultAtime E) = (e, w1)"
        by (cases "SetTimesNano E w afs (Name (fst x)) (Mtime (fst x)) (DefaultAtime E)") auto
      with True Cons.prems(1) have "repaveDirs E afs rs w1 = (None, w')"
        by (auto split: option.splits)
      from Cons.IH [OF this dist r Cons.prems(4)] show ?thesis .
    qed
  qed
qed

text \<open>
  C6. A successful \<open>unpackTar\<close> ends as follows: after the loop over the entries it runs
  the visitor over the records in the order of the bucket walk, setting every directory's
  recorded mtime again, and then places the root record once more, with all its
  metadata. Suppose the filesystem behaves: setting the times of a path, or placing the
  root, gives that path its mtime and leaves the mtimes of the other paths alone; and
  suppose the walk visits every record of the bucket and the root record, each name once
  (the bucket rejects duplicate names). Then at the end every directory that is
  recorded has on disk the mtime that is recorded for it.
\<close>

theorem unpackTar_repaves_directories:
  assumes setT: "\<forall>w p t a w1. SetTimesNano E w afs p t a = (None, w1) \<longrightarrow>
                   mtimeOnDisk E afs w1 p = Some t"
    and setF: "\<forall>w p t a w1 q. SetTimesNano E w afs p t a = (None, w1) \<longrightarrow> q \<noteq> p \<longrightarrow>
                   mtimeOnDisk E afs w1 q = mtimeOnDisk E afs w q"
    and rootT: "\<forall>w m w1. PlaceFile E w afs m None False = (None, w1) \<longrightarrow> Name m = [] \<longrightarrow>
                   mtimeOnDisk E afs w1 [] = Some (Mtime m)"
    and rootF: "\<forall>w m w1 q. PlaceFile E w afs m None False = (None, w1) \<longrightarrow> Name m = [] \<longrightarrow>
                   q \<noteq> [] \<longrightarrow> mtimeOnDisk E afs w1 q = mtimeOnDisk E afs w q"
    and dec: "Decompress T reader = Inr reader2"
    and entries: "unpackEntries E T ctx afs filt 0 (tar_NewReader T reader2) w [] =
                    (None, wl, bucket)"
    and run: "unpackTar E T ctx afs filt reader w = ((ware, None), w')"
    and names: "distinct (map (\<lambda>r. Name (fst r)) (Walk_postorder T bucket))"
    and root: "bucket_Root T bucket \<in> set (Walk_postorder T bucket)"
              "Name (fst (bucket_Root T bucket)) = []"
    and covers: "set bucket \<subseteq> set (Walk_postorder T bucket)"
  shows "(\<exists>w2. repaveDirs E afs (Walk_postorder T bucket) wl = (None, w2)
               \<and> PlaceFile E w2 afs (fst (bucket_Root T bucket)) None False = (None, w'))
       \<and> (\<forall>r \<in> set bucket \<union> set (Walk_postorder T bucket). Type (fst r) = Type_Dir \<longrightarrow>
             mtimeOnDisk E afs w' (Name (fst r)) = Some (Mtime (fst r)))"
proof -
  obtain e2 w2 where repave: "repaveDirs E afs (Walk_postorder T bucket) wl = (e2, w2)"
    by (cases "repaveDirs E afs (Walk_postorder T bucket) wl") auto
  obtain e3 w3 where place:
    "PlaceFile E w2 afs (fst (bucket_Root T bucket)) None False = (e3, w3)"
    by (cases "PlaceFile E w2 afs (fst (bucket_Root T bucket)) None False") auto
  have e2: "e2 = None"
    using run dec entries repave by (cases e2) (simp_all add: unpackTar_def)
  have e3: "e3 = None" and w3: "w3 = w'"
    using run dec entries repave place e2 by (cases e3; simp add: unpackTar_def)+
  have steps: "repaveDirs E afs (Walk_postorder T bucket) wl = (None, w2)"
              "PlaceFile E w2 afs (fst (bucket_Root T bucket)) None False = (None, w')"
    using repave place e2 e3 w3 by simp_all
  have "mtimeOnDisk E afs w' (Name (fst r)) = Some (Mtime (fst r))"
    if r: "r \<in> set (Walk_postorder T bucket)" and dir: "Type (fst r) = Type_Dir" for r
  proof -
    have after: "mtimeOnDisk E afs w2 (Name (fst r)) = Some (Mtime (fst r))"
      using repaveDirs_sets [OF setT setF steps(1) names r dir] .
    show ?thesis
    proof (cases "Name (fst r) = []")
      case True
      with names r root have "r = bucket_Root T bucket"
        by (metis (mono_tags, lifting) distinct_map inj_onD)
      with rootT steps(2) root(2) True show ?thesis
        by simp
    next
      case False
      with rootF steps(2) root(2) have
        "mtimeOnDisk E afs w' (Name (fst r)) = mtimeOnDisk E afs w2 (Name (fst r))"
        by blast
      with after show ?thesis
        by simp
    qed
  qed
  with covers steps show ?thesis
    by blast
qed
text \<open>The in-memory filesystem behaves as the theorem asks.\<close>

lemma mem_mtimeOnDisk:
  "mtimeOnDisk mem_fs afs w p =
     map_option (\<lambda>(m, c). Mtime m) (map_of w (components afs @ p))"
  by (simp add: mtimeOnDisk_def mem_fs_def mem_LStat_def mem_key_def split: option.splits)

lemma mem_SetTimes_result:
  "SetTimesNano mem_fs w afs p t a = (None, w1) \<Longrightarrow>
     \<exists>m c. map_of w (components afs @ p) = Some (m, c)
           \<and> w1 = (components afs @ p, m\<lparr>Mtime := t\<rparr>, c) # w"
  by (auto simp: mem_fs_def mem_SetTimesNano_def mem_key_def split: option.splits)

lemma mem_SetTimes_sets:
  "SetTimesNano mem_fs w afs p t a = (None, w1) \<Longrightarrow> mtimeOnDisk mem_fs afs w1 p = Some t"
  by (drule mem_SetTimes_result) (auto simp: mem_mtimeOnDisk)

lemma mem_SetTimes_frame:
  "SetTimesNano mem_fs w afs p t a = (None, w1) \<Longrightarrow> q \<noteq> p \<Longrightarrow>
     mtimeOnDisk mem_fs afs w1 q = mtimeOnDisk mem_fs afs w q"
  by (drule mem_SetTimes_result) (auto simp: mem_mtimeOnDisk)

lemma mem_PlaceRoot:
  assumes "PlaceFile mem_fs w afs m None False = (None, w1)" and "Name m = []"
  shows "mtimeOnDisk mem_fs afs w1 [] = Some (Mtime m)"
    and "q \<noteq> [] \<Longrightarrow> mtimeOnDisk mem_fs afs w1 q = mtimeOnDisk mem_fs afs w q"
proof -
  let ?key = "components afs"
  have w1: "w1 = mem_touch_parent ((?key, m, []) # w) ?key"
    using assms
    by (simp add: mem_fs_def mem_PlaceFile_def mem_key_def Let_def split: if_splits)
  have neq: "?key \<noteq> [] \<Longrightarrow> butlast ?key \<noteq> ?key"
    by (metis length_butlast diff_less length_greater_0_conv less_numeral_extra(1)
          less_irrefl)
  show "mtimeOnDisk mem_fs afs w1 [] = Some (Mtime m)"
    unfolding w1 using neq
    by (auto simp: mem_mtimeOnDisk mem_touch_parent_def split: option.splits)
  have far: "?key @ q \<noteq> butlast ?key" if "q \<noteq> []"
  proof
    assume "?key @ q = butlast ?key"
    then have "length (?key @ q) = length (butlast ?key)"
      by simp
    with that show False
      by (cases q) simp_all
  qed
  show "q \<noteq> [] \<Longrightarrow> mtimeOnDisk mem_fs afs w1 q = mtimeOnDisk mem_fs afs w q"
    unfolding w1 using far
    by (auto simp: mem_mtimeOnDisk mem_touch_parent_def split: option.splits)
qed

text \<open>
  The theorem at work on the archive \<open>two\<close>: the directory \<open>a\<close> is recorded with mtime
  200; placing the file \<open>a/b\<close> bumps it to the clock's value; at the end of the unpack
  it is 200 again.
\<close>

theorem unpackTar_repaves_directories_witness:
  "fst (unpackEntries mem_fs (mem_tar mem_blobs) (\<lambda>i. False) (AbsolutePath [''t'']) mem_keep 0
          (tar_NewReader (mem_tar mem_blobs) ''two'') mem_w0 []) = None
   \<and> snd (fst (unpackTar mem_fs (mem_tar mem_blobs) (\<lambda>i. False) (AbsolutePath [''t''])
                  mem_keep ''two'' mem_w0)) = None
   \<and> ((mem_dir 200)\<lparr>Name := [''a'']\<rparr>, None)
       \<in> set (snd (snd (unpackEntries mem_fs (mem_tar mem_blobs) (\<lambda>i. False)
                 (AbsolutePath [''t'']) mem_keep 0 (tar_NewReader (mem_tar mem_blobs) ''two'')
                 mem_w0 [])))
   \<and> mtimeOnDisk mem_fs (AbsolutePath [''t''])
        (fst (snd (unpackEntries mem_fs (mem_tar mem_blobs) (\<lambda>i. False) (AbsolutePath [''t''])
                     mem_keep 0 (tar_NewReader (mem_tar mem_blobs) ''two'') mem_w0 [])))
        [''a''] = Some 1700000000
   \<and> mtimeOnDisk mem_fs (AbsolutePath [''t''])
        (snd (unpackTar mem_fs (mem_tar mem_blobs) (\<lambda>i. False) (AbsolutePath [''t''])
                mem_keep ''two'' mem_w0))
        [''a''] = Some 200"
proof -
  let ?T = "mem_tar mem_blobs"
  let ?afs = "AbsolutePath [''t'']"
  let ?X = "unpackEntries mem_fs ?T (\<lambda>i. False) ?afs mem_keep 0 (tar_NewReader ?T ''two'')
              mem_w0 []"
  let ?U = "unpackTar mem_fs ?T (\<lambda>i. False) ?afs mem_keep ''two'' mem_w0"
  let ?r = "((mem_dir 200)\<lparr>Name := [''a'']\<rparr>, None :: string option)"
  have dec: "Decompress ?T ''two'' = Inr ''two''"
    by code_simp
  have x: "fst ?X = None"
    by code_simp
  then have entries: "?X = (None, fst (snd ?X), snd (snd ?X))"
    by (metis prod.collapse)
  have u: "snd (fst ?U) = None"
    by code_simp
  then have run: "?U = ((fst (fst ?U), None), snd ?U)"
    by (metis prod.collapse)
  have names: "distinct (map (\<lambda>r. Name (fst r)) (Walk_postorder ?T (snd (snd ?X))))"
    by code_simp
  have root1: "bucket_Root ?T (snd (snd ?X)) \<in> set (Walk_postorder ?T (snd (snd ?X)))"
    by code_simp
  have root2: "Name (fst (bucket_Root ?T (snd (snd ?X)))) = []"
    by code_simp
  have covers: "set (snd (snd ?X)) \<subseteq> set (Walk_postorder ?T (snd (snd ?X)))"
    by code_simp
  have r: "?r \<in> set (snd (snd ?X))"
    by code_simp
  have dir: "Type (fst ?r) = Type_Dir" and name: "Name (fst ?r) = [''a'']"
    and mtime: "Mtime (fst ?r) = 200"
    by (simp_all add: mem_dir_def)
  have before: "mtimeOnDisk mem_fs ?afs (fst (snd ?X)) [''a''] = Some 1700000000"
    by code_simp
  have f1: "\<forall>w p t a w1. SetTimesNano mem_fs w ?afs p t a = (None, w1) \<longrightarrow>
              mtimeOnDisk mem_fs ?afs w1 p = Some t"
    using mem_SetTimes_sets by blast
  have f2: "\<forall>w p t a w1 q. SetTimesNano mem_fs w ?afs p t a = (None, w1) \<longrightarrow> q \<noteq> p \<longrightarrow>
              mtimeOnDisk mem_fs ?afs w1 q = mtimeOnDisk mem_fs ?afs w q"
    using mem_SetTimes_frame by blast
  have f3: "\<forall>w m w1. PlaceFile mem_fs w ?afs m None False = (None, w1) \<longrightarrow> Name m = [] \<longrightarrow>
              mtimeOnDisk mem_fs ?afs w1 [] = Some (Mtime m)"
    using mem_PlaceRoot(1) by blast
  have f4: "\<forall>w m w1 q. PlaceFile mem_fs w ?afs m None False = (None, w1) \<longrightarrow> Name m = [] \<longrightarrow>
              q \<noteq> [] \<longrightarrow> mtimeOnDisk mem_fs ?afs w1 q = mtimeOnDisk mem_fs ?afs w q"
    using mem_PlaceRoot(2) by blast
  from unpackTar_repaves_directories
         [where E = mem_fs and afs = "?afs" and T = "?T" and ctx = "\<lambda>i. False"
            and wl = "fst (snd ?X)" and bucket = "snd (snd ?X)"
            and ware = "fst (fst ?U)" and w' = "snd ?U",
          OF f1 f2 f3 f4 dec entries run names root1 root2 covers]
  have "\<forall>r \<in> set (snd (snd ?X)) \<union> set (Walk_postorder ?T (snd (snd ?X))).
          Type (fst r) = Type_Dir \<longrightarrow>
          mtimeOnDisk mem_fs ?afs (snd ?U) (Name (fst r)) = Some (Mtime (fst r))"
    by blast
  with r dir have "mtimeOnDisk mem_fs ?afs (snd ?U) (Name (fst ?r)) = Some (Mtime (fst ?r))"
    by blast
  with x u r before show ?thesis
    unfolding name mtime by simp
qed

subsection \<open>The Ware ID as a function of the stream and the filters\<close>













section \<open>\<open>unpack\<close>: what was proved\<close>

subsection \<open>Verification of the hash\<close>

text \<open>
  C2. Whenever \<open>unpack\<close> returns without error, the Ware ID it returns is the declared
  one. And when the extraction went well but computed another Ware ID than the declared
  one, \<open>unpack\<close> returns the computed Ware ID with an error of category
  \<open>ErrWareHashMismatch\<close> whose details hold the declared ID under \<open>expected\<close> and the
  computed one under \<open>actual\<close>.
\<close>

theorem unpack_verifies_hash:
  "(\<forall>got w'. unpack W E T ctx wareID path filt placementMode warehouses w =
               Returns ((got, None), w') \<longrightarrow> got = wareID)
   \<and> (\<forall>path2 filt2 reader gotWare w'.
         MustAbsolutePath W path = Some path2 \<longrightarrow>
         ProcessFilters W filt FilterPurposeUnpack = Inr filt2 \<longrightarrow>
         pickWarehouse W w wareID warehouses None = Inr (Some reader) \<longrightarrow>
         unpackTar E T ctx path2 filt2 reader w = ((gotWare, None), w') \<longrightarrow>
         gotWare \<noteq> wareID \<longrightarrow>
         (\<exists>err. unpack W E T ctx wareID path filt placementMode warehouses w =
                  Returns ((gotWare, Some err), w')
               \<and> category err = ErrWareHashMismatch
               \<and> map_of (details err) ''expected'' = Some (WareID_String wareID)
               \<and> map_of (details err) ''actual'' = Some (WareID_String gotWare)))"
proof (intro conjI allI impI)
  fix got w'
  assume "unpack W E T ctx wareID path filt placementMode warehouses w =
            Returns ((got, None), w')"
  then show "got = wareID"
    by (auto simp: unpack_def split: option.splits sum.splits prod.splits if_splits)
next
  fix path2 filt2 reader gotWare w'
  assume "MustAbsolutePath W path = Some path2"
    and "ProcessFilters W filt FilterPurposeUnpack = Inr filt2"
    and "pickWarehouse W w wareID warehouses None = Inr (Some reader)"
    and "unpackTar E T ctx path2 filt2 reader w = ((gotWare, None), w')"
    and "gotWare \<noteq> wareID"
  then show "\<exists>err. unpack W E T ctx wareID path filt placementMode warehouses w =
                  Returns ((gotWare, Some err), w')
               \<and> category err = ErrWareHashMismatch
               \<and> map_of (details err) ''expected'' = Some (WareID_String wareID)
               \<and> map_of (details err) ''actual'' = Some (WareID_String gotWare)"
    by (simp add: unpack_def ErrorDetailed_def RequireErrorHasCategory_def is_rio_category_def)
qed
text \<open>
  The theorem at work: the archive \<open>one\<close> is unpacked from the warehouse \<open>C\<close>, first
  under a wrong Ware ID, then under its own.
\<close>

theorem unpack_verifies_hash_witness:
  "map_option (\<lambda>r. fst (fst r))
     (returned (unpack (mem_wh mem_whs) mem_fs (mem_tar mem_blobs) (\<lambda>i. False)
                  (WareID ''tar'' ''x'') ''/t'' mem_keep ''copy'' [''file://C''] mem_w0)) =
     Some (WareID ''tar'' ''.=-;a=-;a/b=hello;'')
   \<and> map_option (\<lambda>r. map_option category (snd (fst r)))
       (returned (unpack (mem_wh mem_whs) mem_fs (mem_tar mem_blobs) (\<lambda>i. False)
                    (WareID ''tar'' ''x'') ''/t'' mem_keep ''copy'' [''file://C''] mem_w0)) =
       Some (Some ErrWareHashMismatch)
   \<and> map_option (\<lambda>r. map_option (\<lambda>e. map_of (details e) ''expected'') (snd (fst r)))
       (returned (unpack (mem_wh mem_whs) mem_fs (mem_tar mem_blobs) (\<lambda>i. False)
                    (WareID ''tar'' ''x'') ''/t'' mem_keep ''copy'' [''file://C''] mem_w0)) =
       Some (Some (Some ''tar:x''))
   \<and> map_option (\<lambda>r. map_option (\<lambda>e. map_of (details e) ''actual'') (snd (fst r)))
       (returned (unpack (mem_wh mem_whs) mem_fs (mem_tar mem_blobs) (\<lambda>i. False)
                    (WareID ''tar'' ''x'') ''/t'' mem_keep ''copy'' [''file://C''] mem_w0)) =
       Some (Some (Some ''tar:.=-;a=-;a/b=hello;''))
   \<and> map_option (\<lambda>r. snd (fst r))
       (returned (unpack (mem_wh mem_whs) mem_fs (mem_tar mem_blobs) (\<lambda>i. False)
                    (WareID ''tar'' ''.=-;a=-;a/b=hello;'') ''/t'' mem_keep ''copy''
                    [''file://C''] mem_w0)) = Some None
   \<and> map_option (\<lambda>r. fst (fst r))
       (returned (unpack (mem_wh mem_whs) mem_fs (mem_tar mem_blobs) (\<lambda>i. False)
                    (WareID ''tar'' ''.=-;a=-;a/b=hello;'') ''/t'' mem_keep ''copy''
                    [''file://C''] mem_w0)) = Some (WareID ''tar'' ''.=-;a=-;a/b=hello;'')"
proof -
  let ?W = "mem_wh mem_whs"
  let ?T = "mem_tar mem_blobs"
  let ?good = "WareID ''tar'' ''.=-;a=-;a/b=hello;''"
  let ?bad = "WareID ''tar'' ''x''"
  let ?R1 = "unpack ?W mem_fs ?T (\<lambda>i. False) ?bad ''/t'' mem_keep ''copy'' [''file://C''] mem_w0"
  let ?R2 = "unpack ?W mem_fs ?T (\<lambda>i. False) ?good ''/t'' mem_keep ''copy'' [''file://C''] mem_w0"
  let ?U = "unpackTar mem_fs ?T (\<lambda>i. False) (AbsolutePath [''t'']) mem_keep ''one'' mem_w0"
  have h1: "MustAbsolutePath ?W ''/t'' = Some (AbsolutePath [''t''])"
    by code_simp
  have h2: "ProcessFilters ?W mem_keep FilterPurposeUnpack = Inr mem_keep"
    by code_simp
  have h3: "pickWarehouse ?W mem_w0 ?bad [''file://C''] None = Inr (Some ''one'')"
    by code_simp
  have h4: "?U = ((?good, None), snd ?U)"
    by code_simp
  have h5: "?good \<noteq> ?bad"
    by simp
  have s1: "WareID_String ?bad = ''tar:x''" and s2: "WareID_String ?good = ''tar:.=-;a=-;a/b=hello;''"
    by (simp_all add: WareID_String_def)
  from unpack_verifies_hash [of ?W mem_fs ?T "\<lambda>i. False" ?bad "''/t''" mem_keep "''copy''"
         "[''file://C'']" mem_w0, THEN conjunct2, rule_format, OF h1 h2 h3 h4 h5]
  obtain err where
    "?R1 = Returns ((?good, Some err), snd ?U)" "category err = ErrWareHashMismatch"
    "map_of (details err) ''expected'' = Some ''tar:x''"
    "map_of (details err) ''actual'' = Some ''tar:.=-;a=-;a/b=hello;''"
    unfolding s1 s2 by blast
  then have first:
    "map_option (\<lambda>r. fst (fst r)) (returned ?R1) = Some ?good"
    "map_option (\<lambda>r. map_option category (snd (fst r))) (returned ?R1) =
       Some (Some ErrWareHashMismatch)"
    "map_option (\<lambda>r. map_option (\<lambda>e. map_of (details e) ''expected'') (snd (fst r)))
       (returned ?R1) = Some (Some (Some ''tar:x''))"
    "map_option (\<lambda>r. map_option (\<lambda>e. map_of (details e) ''actual'') (snd (fst r)))
       (returned ?R1) = Some (Some (Some ''tar:.=-;a=-;a/b=hello;''))"
    by (simp_all add: returned_def)
  have ok: "map_option (\<lambda>r. snd (fst r)) (returned ?R2) = Some None"
    by code_simp
  then obtain got w' where run2: "?R2 = Returns ((got, None), w')"
    by (cases ?R2) (auto simp: returned_def)
  from unpack_verifies_hash [of ?W mem_fs ?T "\<lambda>i. False" ?good "''/t''" mem_keep "''copy''"
         "[''file://C'']" mem_w0, THEN conjunct1, rule_format, OF run2]
  have "got = ?good" .
  with run2 have second: "map_option (\<lambda>r. fst (fst r)) (returned ?R2) = Some ?good"
    by (simp add: returned_def)
  from first ok second show ?thesis
    by blast
qed

subsection \<open>The choice of a warehouse\<close>

text \<open>
  C3: what the loop does with four lists of warehouses. \<open>A\<close> is unavailable, \<open>B\<close> has
  not got the ware, \<open>C\<close> has the archive \<open>one\<close>, \<open>D\<close> has the archive \<open>two\<close>. With
  \<open>A\<close>, \<open>B\<close>, \<open>C\<close> the reader is that of \<open>C\<close>, as with \<open>C\<close> alone. With \<open>C\<close> and then
  \<open>D\<close>, the reader that is used is that of \<open>D\<close>: the loop goes on after \<open>C\<close> has opened
  and line 111 assigns the variable again. With \<open>C\<close> and then \<open>B\<close>, the reader is nil
  after the loop, and \<open>unpack\<close> fails with \<open>ErrWarehouseUnavailable\<close> although \<open>C\<close> had
  opened; alone, \<open>C\<close> gives a successful unpack under the same Ware ID.
\<close>

theorem pickWarehouse_keeps_last_reader:
  "pickWarehouse (mem_wh mem_whs) mem_w0 (WareID ''tar'' ''.=-;a=-;a/b=hello;'')
     [''file://A'', ''file://B'', ''file://C''] None = Inr (Some ''one'')
   \<and> pickWarehouse (mem_wh mem_whs) mem_w0 (WareID ''tar'' ''.=-;a=-;a/b=hello;'')
       [''file://C''] None = Inr (Some ''one'')
   \<and> pickWarehouse (mem_wh mem_whs) mem_w0 (WareID ''tar'' ''.=-;a=-;a/b=hello;'')
       [''file://C'', ''http://D''] None = Inr (Some ''two'')
   \<and> pickWarehouse (mem_wh mem_whs) mem_w0 (WareID ''tar'' ''.=-;a=-;a/b=hello;'')
       [''file://C'', ''file://B''] None = Inr None
   \<and> map_option (\<lambda>r. map_option category (snd (fst r)))
       (returned (unpack (mem_wh mem_whs) mem_fs (mem_tar mem_blobs) (\<lambda>i. False)
                    (WareID ''tar'' ''.=-;a=-;a/b=hello;'') ''/t'' mem_keep ''copy''
                    [''file://C''] mem_w0)) = Some None
   \<and> map_option (\<lambda>r. map_option category (snd (fst r)))
       (returned (unpack (mem_wh mem_whs) mem_fs (mem_tar mem_blobs) (\<lambda>i. False)
                    (WareID ''tar'' ''.=-;a=-;a/b=hello;'') ''/t'' mem_keep ''copy''
                    [''file://C'', ''file://B''] mem_w0)) = Some (Some ErrWarehouseUnavailable)
   \<and> map_option (\<lambda>r. map_option category (snd (fst r)))
       (returned (unpack (mem_wh mem_whs) mem_fs (mem_tar mem_blobs) (\<lambda>i. False)
                    (WareID ''tar'' ''.=-;a=-;a/b=hello;'') ''/t'' mem_keep ''copy''
                    [''file://C'', ''http://D''] mem_w0)) = Some (Some ErrWareHashMismatch)"
  by code_simp

section \<open>The command line: what was proved\<close>

text \<open>What \<open>EmitResult\<close> writes, format by format.\<close>

lemma EmitResult_dumb:
  "fmt = [] \<or> fmt = format_Dumb \<Longrightarrow>
   EmitResult C fmt wareID err out =
     Returns (case err of
                Some e \<Rightarrow> out\<lparr>stderr := stderr out @ error_Error C e @ ''\<newline>''\<rparr>
              | None \<Rightarrow> out\<lparr>stdout := stdout out @ WareID_String wareID @ ''\<newline>''\<rparr>)"
  by (auto simp: EmitResult_def split: option.splits)

lemma EmitResult_json:
  "EmitResult C format_Json wareID err out = Returns out' \<Longrightarrow>
   (\<exists>txt. Marshal C \<lparr>result_WareID = wareID, result_Error = err\<rparr> = Inr txt
          \<and> stdout out' = stdout out @ txt)
   \<and> stderr out' = stderr out @ (case err of None \<Rightarrow> [] | Some e \<Rightarrow> error_Error C e @ ''\<newline>'')"
  by (auto simp: EmitResult_def format_Json_def format_Dumb_def Let_def
           split: option.splits sum.splits)

text \<open>A call of \<open>Main\<close> that returns, taken apart.\<close>

lemma Main_returns:
  assumes "Main C ctx argv (w, out) = Returns (code, w', out')"
  shows "\<exists>bhv ware err.
           argv \<noteq> []
         \<and> lookupBehavior (app_Parse C (tl argv)) = Some bhv
         \<and> toolCall C ctx bhv (parsedArgs (app_Parse C (tl argv))) w = Returns ((ware, err), w')
         \<and> EmitResult C (baseArgs_Format (app_Parse C (tl argv)))
              (case err of None \<Rightarrow> ware | Some e \<Rightarrow> WareID_zero) err
              (out\<lparr>stderr := stderr out @ kingpin_wrote (app_Parse C (tl argv))\<rparr>) = Returns out'
         \<and> code = ExitCodeForError err"
proof -
  let ?r = "app_Parse C (tl argv)"
  let ?out1 = "out\<lparr>stderr := stderr out @ kingpin_wrote ?r\<rparr>"
  have ne: "argv \<noteq> []"
    using assms by (auto simp: Main_def Parse_def)
  then obtain bhv where bhv: "lookupBehavior ?r = Some bhv"
    using assms by (cases "lookupBehavior ?r") (auto simp: Main_def Parse_def Let_def)
  have parse: "Parse C argv out = Returns (bhv, baseArgs_Format ?r, parsedArgs ?r, ?out1)"
    using ne bhv by (simp add: Parse_def Let_def)
  obtain err where a: "action C ctx (baseArgs_Format ?r) bhv (parsedArgs ?r) (w, ?out1) =
                         Returns (err, w', out')"
    and code: "code = ExitCodeForError err"
    using assms parse
    by (cases "action C ctx (baseArgs_Format ?r) bhv (parsedArgs ?r) (w, ?out1)")
       (auto simp: Main_def)
  obtain ware err' w1 where t: "toolCall C ctx bhv (parsedArgs ?r) w = Returns ((ware, err'), w1)"
    using a by (cases "toolCall C ctx bhv (parsedArgs ?r) w") (auto simp: action_def)
  have "err' = err \<and> w1 = w'
      \<and> EmitResult C (baseArgs_Format ?r) (case err of None \<Rightarrow> ware | Some e \<Rightarrow> WareID_zero)
          err ?out1 = Returns out'"
    using a t by (cases err') (auto simp: action_def split: outcome.splits)
  with ne bhv t code show ?thesis
    by blast
qed

text \<open>
  C8, as the code has it. Take a call of \<open>Main\<close> that returns. The parser has selected a
  behaviour, whose tool call has ended with a Ware ID and an error or none, and the exit
  code is that of the error. In the dumb format (the default, or the format left empty), a
  success writes the Ware ID and a newline to the standard output and nothing to the
  standard error beyond what the parser itself wrote there; an error leaves the standard
  output alone and writes the error message and a newline to the standard error. In the
  json format one marshalled result event, that of the Ware ID and the error, is written
  to the standard output, and on error the message and a newline go to the standard error
  as well. When the parser reported an error, the error of the call has category
  \<open>ErrUsage\<close> and the exit code is 2; what is written then follows the format as above:
  nothing on the standard output in the dumb format, the result event in the json format.
\<close>

theorem Main_output_contract:
  assumes "Main C ctx argv (w, out) = Returns (code, w', out')"
  shows "\<exists>bhv ware err.
           lookupBehavior (app_Parse C (tl argv)) = Some bhv
         \<and> toolCall C ctx bhv (parsedArgs (app_Parse C (tl argv))) w = Returns ((ware, err), w')
         \<and> code = ExitCodeForError err
         \<and> (baseArgs_Format (app_Parse C (tl argv)) = []
              \<or> baseArgs_Format (app_Parse C (tl argv)) = format_Dumb \<longrightarrow>
            (case err of
               None \<Rightarrow>
                 stdout out' = stdout out @ WareID_String ware @ ''\<newline>''
                 \<and> stderr out' = stderr out @ kingpin_wrote (app_Parse C (tl argv))
             | Some e \<Rightarrow>
                 stdout out' = stdout out
                 \<and> stderr out' = stderr out @ kingpin_wrote (app_Parse C (tl argv))
                                  @ error_Error C e @ ''\<newline>''))
         \<and> (baseArgs_Format (app_Parse C (tl argv)) = format_Json \<longrightarrow>
            (\<exists>txt. Marshal C \<lparr>result_WareID = (case err of None \<Rightarrow> ware | Some e \<Rightarrow> WareID_zero),
                               result_Error = err\<rparr> = Inr txt
                   \<and> stdout out' = stdout out @ txt)
            \<and> stderr out' = stderr out @ kingpin_wrote (app_Parse C (tl argv))
                             @ (case err of None \<Rightarrow> [] | Some e \<Rightarrow> error_Error C e @ ''\<newline>''))
         \<and> (parseErr (app_Parse C (tl argv)) \<noteq> None \<longrightarrow>
            (\<exists>e. err = Some e \<and> category e = ErrUsage) \<and> code = 2)"
proof -
  let ?r = "app_Parse C (tl argv)"
  let ?out1 = "out\<lparr>stderr := stderr out @ kingpin_wrote ?r\<rparr>"
  from Main_returns [OF assms] obtain bhv ware err where
    bhv: "lookupBehavior ?r = Some bhv"
    and tool: "toolCall C ctx bhv (parsedArgs ?r) w = Returns ((ware, err), w')"
    and emit: "EmitResult C (baseArgs_Format ?r)
                 (case err of None \<Rightarrow> ware | Some e \<Rightarrow> WareID_zero) err ?out1 = Returns out'"
    and code: "code = ExitCodeForError err"
    by blast
  have dumb: "(case err of
               None \<Rightarrow>
                 stdout out' = stdout out @ WareID_String ware @ ''\<newline>''
                 \<and> stderr out' = stderr out @ kingpin_wrote ?r
             | Some e \<Rightarrow>
                 stdout out' = stdout out
                 \<and> stderr out' = stderr out @ kingpin_wrote ?r @ error_Error C e @ ''\<newline>'')"
    if "baseArgs_Format ?r = [] \<or> baseArgs_Format ?r = format_Dumb"
    using emit EmitResult_dumb [OF that, of C] by (cases err) auto
  have json: "(\<exists>txt. Marshal C \<lparr>result_WareID = (case err of None \<Rightarrow> ware | Some e \<Rightarrow> WareID_zero),
                               result_Error = err\<rparr> = Inr txt
                   \<and> stdout out' = stdout out @ txt)
            \<and> stderr out' = stderr out @ kingpin_wrote ?r
                             @ (case err of None \<Rightarrow> [] | Some e \<Rightarrow> error_Error C e @ ''\<newline>'')"
    if "baseArgs_Format ?r = format_Json"
    using EmitResult_json [OF emit [unfolded that]] by simp
  have usage: "(\<exists>e. err = Some e \<and> category e = ErrUsage) \<and> code = 2"
    if "parseErr ?r \<noteq> None"
  proof -
    from that obtain msg where "parseErr ?r = Some msg"
      by blast
    with bhv have "bhv = BhvParseError msg"
      by (simp add: lookupBehavior_def)
    with tool have "err = Some (Errorf ErrUsage ''error parsing args: %s'' [ArgString msg])"
      by (simp add: toolCall_def)
    with code show ?thesis
      by (simp add: ExitCodeForError_def Errorf_def)
  qed
  from bhv tool code dumb json usage show ?thesis
    by blast
qed
text \<open>
  The theorem at work on two command lines: an unpack in the json format that succeeds,
  and no arguments at all in the dumb format.
\<close>

theorem Main_output_contract_witness:
  \<open>map_option (\<lambda>r. (fst r, snd (snd r)))
     (returned (Main (mem_cli mem_whs mem_blobs) (\<lambda>i. False)
                  [''rio'', ''unpack'', ''/t'', ''tar:.=-;a=-;a/b=hello;'', ''--source=file://C'',
                   ''--format=json''] (mem_w0, mem_io0))) =
     Some (0, \<lparr>stdout = ''{"prog":null,"result":{"wareID":"tar:.=-;a=-;a/b=hello;","error":null}}'',
               stderr = []\<rparr>)
   \<and> map_option (\<lambda>r. (fst r, snd (snd r)))
       (returned (Main (mem_cli mem_whs mem_blobs) (\<lambda>i. False) [''rio''] (mem_w0, mem_io0))) =
       Some (2, \<lparr>stdout = [],
                 stderr = ''usage: rio [<flags>] <command> [<args> ...]\<newline>error parsing args: %s\<newline>''\<rparr>)\<close>
proof -
  let ?C = "mem_cli mem_whs mem_blobs"
  let ?good = "WareID ''tar'' ''.=-;a=-;a/b=hello;''"
  let ?argv1 = "[''rio'', ''unpack'', ''/t'', ''tar:.=-;a=-;a/b=hello;'', ''--source=file://C'',
                 ''--format=json'']"
  let ?M1 = "Main ?C (\<lambda>i. False) ?argv1 (mem_w0, mem_io0)"
  let ?r1 = "app_Parse ?C (tl ?argv1)"
  let ?M2 = "Main ?C (\<lambda>i. False) [''rio''] (mem_w0, mem_io0)"
  let ?r2 = "app_Parse ?C (tl [''rio''])"
  let ?e2 = "Errorf ErrUsage ''error parsing args: %s'' [ArgString ''must select a subcommand of rio'']"
  have "returned ?M1 \<noteq> None"
    by code_simp
  then obtain code1 w1 out1 where m1: "?M1 = Returns (code1, w1, out1)"
    by (cases ?M1) (auto simp: returned_def)
  have l1: "lookupBehavior ?r1 = Some BhvUnpack"
    by code_simp
  have t1: "map_option fst (returned (toolCall ?C (\<lambda>i. False) BhvUnpack (parsedArgs ?r1) mem_w0)) =
              Some (?good, None)"
    by code_simp
  have f1: "baseArgs_Format ?r1 = format_Json" and k1: "kingpin_wrote ?r1 = []"
    by code_simp+
  have j1: \<open>Marshal ?C \<lparr>result_WareID = ?good, result_Error = None\<rparr> =
             Inr ''{"prog":null,"result":{"wareID":"tar:.=-;a=-;a/b=hello;","error":null}}''\<close>
    by code_simp
  from Main_output_contract [OF m1] obtain bhv ware err where
    "lookupBehavior ?r1 = Some bhv"
    "toolCall ?C (\<lambda>i. False) bhv (parsedArgs ?r1) mem_w0 = Returns ((ware, err), w1)"
    "code1 = ExitCodeForError err"
    "baseArgs_Format ?r1 = format_Json \<longrightarrow>
       (\<exists>txt. Marshal ?C \<lparr>result_WareID = (case err of None \<Rightarrow> ware | Some e \<Rightarrow> WareID_zero),
                           result_Error = err\<rparr> = Inr txt
              \<and> stdout out1 = stdout mem_io0 @ txt)
       \<and> stderr out1 = stderr mem_io0 @ kingpin_wrote ?r1
                        @ (case err of None \<Rightarrow> [] | Some e \<Rightarrow> error_Error ?C e @ ''\<newline>'')"
    by blast
  with l1 t1 f1 have "ware = ?good" "err = None" "code1 = 0"
    and "\<exists>txt. Marshal ?C \<lparr>result_WareID = ?good, result_Error = None\<rparr> = Inr txt
              \<and> stdout out1 = stdout mem_io0 @ txt"
    and "stderr out1 = stderr mem_io0 @ kingpin_wrote ?r1"
    by (auto simp: returned_def ExitCodeForError_def)
  with j1 k1 have "code1 = 0"
    and \<open>stdout out1 = ''{"prog":null,"result":{"wareID":"tar:.=-;a=-;a/b=hello;","error":null}}''\<close>
    and "stderr out1 = []"
    by (auto simp: mem_io0_def)
  with m1 have first:
    \<open>map_option (\<lambda>r. (fst r, snd (snd r))) (returned ?M1) =
       Some (0, \<lparr>stdout = ''{"prog":null,"result":{"wareID":"tar:.=-;a=-;a/b=hello;","error":null}}'',
                 stderr = []\<rparr>)\<close>
    by (simp add: returned_def)
  have "returned ?M2 \<noteq> None"
    by code_simp
  then obtain code2 w2 out2 where m2: "?M2 = Returns (code2, w2, out2)"
    by (cases ?M2) (auto simp: returned_def)
  have l2: "lookupBehavior ?r2 = Some (BhvParseError ''must select a subcommand of rio'')"
    by code_simp
  have t2: "map_option fst (returned (toolCall ?C (\<lambda>i. False)
              (BhvParseError ''must select a subcommand of rio'') (parsedArgs ?r2) mem_w0)) =
              Some (WareID_zero, Some ?e2)"
    by code_simp
  have f2: "baseArgs_Format ?r2 = format_Dumb"
    and k2: "kingpin_wrote ?r2 = ''usage: rio [<flags>] <command> [<args> ...]\<newline>''"
    and p2: "error_Error ?C ?e2 = ''error parsing args: %s''"
    by code_simp+
  from Main_output_contract [OF m2] obtain bhv' ware' err' where
    "lookupBehavior ?r2 = Some bhv'"
    "toolCall ?C (\<lambda>i. False) bhv' (parsedArgs ?r2) mem_w0 = Returns ((ware', err'), w2)"
    "code2 = ExitCodeForError err'"
    "baseArgs_Format ?r2 = [] \<or> baseArgs_Format ?r2 = format_Dumb \<longrightarrow>
       (case err' of
          None \<Rightarrow> stdout out2 = stdout mem_io0 @ WareID_String ware' @ ''\<newline>''
                 \<and> stderr out2 = stderr mem_io0 @ kingpin_wrote ?r2
        | Some e \<Rightarrow> stdout out2 = stdout mem_io0
                   \<and> stderr out2 = stderr mem_io0 @ kingpin_wrote ?r2 @ error_Error ?C e @ ''\<newline>'')"
    by blast
  with l2 t2 f2 have "err' = Some ?e2" "code2 = 2" "stdout out2 = stdout mem_io0"
    and "stderr out2 = stderr mem_io0 @ kingpin_wrote ?r2 @ error_Error ?C ?e2 @ ''\<newline>''"
    by (auto simp: returned_def ExitCodeForError_def Errorf_def)
  with k2 p2 have "code2 = 2" "stdout out2 = []"
    and "stderr out2 = ''usage: rio [<flags>] <command> [<args> ...]\<newline>error parsing args: %s\<newline>''"
    by (auto simp: mem_io0_def)
  with m2 have second:
    "map_option (\<lambda>r. (fst r, snd (snd r))) (returned ?M2) =
       Some (2, \<lparr>stdout = [],
                 stderr = ''usage: rio [<flags>] <command> [<args> ...]\<newline>error parsing args: %s\<newline>''\<rparr>)"
    by (simp add: returned_def)
  from first second show ?thesis
    by blast
qed

text \<open>
  C8 as the specification states it fails in its last part: with the json format, a
  command line that the parser rejects still has its result event written to the standard
  output. The parser has read the format flag before it reports that no command was
  selected, and line 241 hands the format to the output controller before the error is
  looked at.
\<close>

theorem Main_usage_json_counterexample:
  \<open>parseErr (app_Parse (mem_cli mem_whs mem_blobs) (tl [''rio'', ''--format=json''])) =
     Some ''must select a subcommand of rio''
   \<and> baseArgs_Format (app_Parse (mem_cli mem_whs mem_blobs) (tl [''rio'', ''--format=json''])) =
       format_Json
   \<and> map_option fst
       (returned (Main (mem_cli mem_whs mem_blobs) (\<lambda>i. False) [''rio'', ''--format=json'']
                    (mem_w0, mem_io0))) = Some 2
   \<and> map_option (\<lambda>r. stdout (snd (snd r)))
       (returned (Main (mem_cli mem_whs mem_blobs) (\<lambda>i. False) [''rio'', ''--format=json'']
                    (mem_w0, mem_io0))) =
       Some ''{"prog":null,"result":{"wareID":":","error":{"message":"error parsing args: %s"}}}''
   \<and> map_option (\<lambda>r. stdout (snd (snd r)))
       (returned (Main (mem_cli mem_whs mem_blobs) (\<lambda>i. False) [''rio'', ''--format=json'']
                    (mem_w0, mem_io0))) \<noteq> Some []\<close>
  by code_simp

end
